theory Spec2Isabelle
  imports Complex_Main "HOL-Library.Sublist"
begin

section \<open>Python building blocks\<close>

text \<open>
  Exceptions are values. Only the class of an exception matters to the handlers of the
  code: \<^verbatim>\<open>requests.exceptions.RequestException\<close> (time-outs, refused connections and
  the \<^verbatim>\<open>HTTPError\<close> that \<^verbatim>\<open>raise_for_status\<close> raises on a non-2xx answer) is
  told apart from every other \<^verbatim>\<open>Exception\<close>.
\<close>

datatype py_exception = KeyError | ValueError | TypeError | RequestException | OtherException

text \<open>
  A dictionary is a partial map. \<^verbatim>\<open>d[k]\<close> raises \<^verbatim>\<open>KeyError\<close> on a missing key,
  \<^verbatim>\<open>d.get(k, default)\<close> does not. A key of a dictionary with a fixed set of
  possible keys is a field of option type; \<^verbatim>\<open>d[k]\<close> on it is \<open>item\<close>.
\<close>

definition subscript :: "('k \<rightharpoonup> 'v) \<Rightarrow> 'k \<Rightarrow> py_exception + 'v" where
  "subscript d k = (case d k of None \<Rightarrow> Inl KeyError | Some v \<Rightarrow> Inr v)"

definition item :: "'v option \<Rightarrow> py_exception + 'v" where
  "item field = (case field of None \<Rightarrow> Inl KeyError | Some v \<Rightarrow> Inr v)"

definition dict_get :: "('k \<rightharpoonup> 'v) \<Rightarrow> 'k \<Rightarrow> 'v \<Rightarrow> 'v" where
  "dict_get d k dflt = (case d k of None \<Rightarrow> dflt | Some v \<Rightarrow> v)"

text \<open>
  A statement that may raise returns \<open>Inl\<close> of the exception; \<open>and_then\<close> runs the
  rest of a block only when the statement before it did not raise.
\<close>

definition and_then :: "py_exception + 'a \<Rightarrow> ('a \<Rightarrow> py_exception + 'b) \<Rightarrow> py_exception + 'b" where
  "and_then r k = (case r of Inl e \<Rightarrow> Inl e | Inr v \<Rightarrow> k v)"

definition get_or :: "'v option \<Rightarrow> 'v \<Rightarrow> 'v" where
  "get_or field dflt = (case field of None \<Rightarrow> dflt | Some v \<Rightarrow> v)"

text \<open>
  Floating-point numbers are modelled by the reals (no rounding, no NaN). The two ways
  the code renders a number inside a message, \<^verbatim>\<open>f"{x:.1f}"\<close> and
  \<^verbatim>\<open>f"{x}"\<close>, and \<^verbatim>\<open>str.upper\<close> are functions of the Python runtime and are
  taken as parameters.
\<close>

record formats =
  format_1f :: "real \<Rightarrow> string"
  str_number :: "real \<Rightarrow> string"
  str_upper :: "string \<Rightarrow> string"

section \<open>The collector: configuration and snapshot\<close>

text \<open>
  \<^verbatim>\<open>config.yaml\<close> after \<^verbatim>\<open>_load_config\<close>, which checks that three sections
  are there and nothing about their values. A key the code reads with
  \<^verbatim>\<open>.get(key, default)\<close> is a field of option type. A number of the file is an
  integer or a float. \<^verbatim>\<open>max_retries\<close> goes to \<^verbatim>\<open>range\<close>, which takes an integer
  and raises \<^verbatim>\<open>TypeError\<close> on a float; \<^verbatim>\<open>retry_delay\<close> goes to \<^verbatim>\<open>time.sleep\<close>,
  which takes either and raises \<^verbatim>\<open>ValueError\<close> on a negative one, so it is a real
  number of any sign. The thresholds, the interval and the cooldown are only compared
  and subtracted.
\<close>

datatype py_number = PyInt int | PyFloat real

record endpoint_config =
  max_retries :: "py_number option"
  retry_delay :: "real option"

record alerts_config =
  enabled :: "bool option"
  cooldown_minutes :: "real option"
  channels :: "string list option"
  slack_webhook_url :: "string option"

record config =
  endpoint :: "endpoint_config option"
  interval_seconds :: real
  thresholds :: "(string \<rightharpoonup> real) option"
  alerts :: "alerts_config option"

text \<open>
  The snapshot \<^verbatim>\<open>collect_metrics\<close> returns, as far as \<^verbatim>\<open>check_alerts\<close> reads it.
  The families \<^verbatim>\<open>cpu\<close>, \<^verbatim>\<open>memory\<close> and \<^verbatim>\<open>swap\<close> are dictionaries of numbers;
  \<^verbatim>\<open>disk\<close> is a list whose entries are dictionaries (with a number under
  \<^verbatim>\<open>percent\<close> and a string under \<^verbatim>\<open>mountpoint\<close>) or something else. The snapshot
  of a failed collection has none of the four keys.
\<close>

type_synonym family = "string \<rightharpoonup> real"

record disk_dict =
  d_percent :: "real option"
  d_mountpoint :: "string option"

datatype disk_entry = DiskDict disk_dict | NotADict

record metrics =
  cpu :: "family option"
  memory :: "family option"
  disk :: "disk_entry list option"
  swap :: "family option"

section \<open>The threshold evaluator: \<^verbatim>\<open>check_alerts\<close>\<close>

text \<open>\<^verbatim>\<open>self.config.get('alerts', {})\<close>: a missing section reads as an empty one.\<close>

definition alerts_section :: "config \<Rightarrow> alerts_config" where
  "alerts_section cfg = get_or (alerts cfg)
     \<lparr>enabled = None, cooldown_minutes = None, channels = None, slack_webhook_url = None\<rparr>"

definition alerts_enabled :: "config \<Rightarrow> bool" where
  "alerts_enabled cfg = get_or (enabled (alerts_section cfg)) True"

definition get_thresholds :: "config \<Rightarrow> (string \<rightharpoonup> real)" where
  "get_thresholds cfg = get_or (thresholds cfg) Map.empty"

definition cpu_message :: "formats \<Rightarrow> real \<Rightarrow> real \<Rightarrow> string" where
  "cpu_message f cpu_percent t =
     ''High CPU usage: '' @ format_1f f cpu_percent @ ''% (threshold: '' @ str_number f t @ ''%)''"

definition memory_message :: "formats \<Rightarrow> real \<Rightarrow> real \<Rightarrow> string" where
  "memory_message f memory_percent t =
     ''High memory usage: '' @ format_1f f memory_percent @ ''% (threshold: '' @ str_number f t @ ''%)''"

definition disk_message :: "formats \<Rightarrow> disk_dict \<Rightarrow> real \<Rightarrow> real \<Rightarrow> string" where
  "disk_message f d disk_percent disk_threshold =
     ''High disk usage on '' @ get_or (d_mountpoint d) ''unknown'' @ '': '' @
     format_1f f disk_percent @ ''% (threshold: '' @ str_number f disk_threshold @ ''%)''"

definition swap_message :: "formats \<Rightarrow> real \<Rightarrow> real \<Rightarrow> string" where
  "swap_message f swap_percent t =
     ''High swap usage: '' @ format_1f f swap_percent @ ''% (threshold: '' @ str_number f t @ ''%)''"

text \<open>Lines 202-206: the messages the CPU check appends to \<^verbatim>\<open>alerts_triggered\<close>.\<close>

definition check_cpu :: "formats \<Rightarrow> (string \<rightharpoonup> real) \<Rightarrow> metrics \<Rightarrow> py_exception + string list" where
  "check_cpu f th m =
     (if th ''cpu'' \<noteq> None \<and> cpu m \<noteq> None then
        and_then (item (cpu m)) (\<lambda>c.
          let cpu_percent = dict_get c ''percent'' 0 in
          and_then (subscript th ''cpu'') (\<lambda>t.
            if cpu_percent > t then Inr [cpu_message f cpu_percent t] else Inr []))
      else Inr [])"

text \<open>Lines 208-212.\<close>

definition check_memory :: "formats \<Rightarrow> (string \<rightharpoonup> real) \<Rightarrow> metrics \<Rightarrow> py_exception + string list" where
  "check_memory f th m =
     (if th ''memory'' \<noteq> None \<and> memory m \<noteq> None then
        and_then (item (memory m)) (\<lambda>c.
          let memory_percent = dict_get c ''percent'' 0 in
          and_then (subscript th ''memory'') (\<lambda>t.
            if memory_percent > t then Inr [memory_message f memory_percent t] else Inr []))
      else Inr [])"

text \<open>
  Lines 217-223: the loop over the mounts. An entry that is no dictionary, or has no
  \<^verbatim>\<open>percent\<close>, is passed over.
\<close>

fun check_disk_entries :: "formats \<Rightarrow> real \<Rightarrow> disk_entry list \<Rightarrow> py_exception + string list" where
  "check_disk_entries f disk_threshold [] = Inr []"
| "check_disk_entries f disk_threshold (NotADict # ds) = check_disk_entries f disk_threshold ds"
| "check_disk_entries f disk_threshold (DiskDict d # ds) =
     (if d_percent d \<noteq> None then
        and_then (item (d_percent d)) (\<lambda>p.
          if p > disk_threshold then
            and_then (check_disk_entries f disk_threshold ds) (\<lambda>rest.
              Inr (disk_message f d p disk_threshold # rest))
          else check_disk_entries f disk_threshold ds)
      else check_disk_entries f disk_threshold ds)"

text \<open>Lines 214-223.\<close>

definition check_disk :: "formats \<Rightarrow> (string \<rightharpoonup> real) \<Rightarrow> metrics \<Rightarrow> py_exception + string list" where
  "check_disk f th m =
     (if th ''disk'' \<noteq> None \<and> disk m \<noteq> None then
        and_then (subscript th ''disk'') (\<lambda>disk_threshold.
          and_then (item (disk m)) (\<lambda>ds.
            check_disk_entries f disk_threshold ds))
      else Inr [])"

text \<open>Lines 225-229.\<close>

definition check_swap :: "formats \<Rightarrow> (string \<rightharpoonup> real) \<Rightarrow> metrics \<Rightarrow> py_exception + string list" where
  "check_swap f th m =
     (if th ''swap'' \<noteq> None \<and> swap m \<noteq> None then
        and_then (item (swap m)) (\<lambda>c.
          let swap_percent = dict_get c ''percent'' 0 in
          and_then (subscript th ''swap'') (\<lambda>t.
            if swap_percent > t then Inr [swap_message f swap_percent t] else Inr []))
      else Inr [])"

text \<open>
  Lines 196-229 of \<^verbatim>\<open>check_alerts\<close>: the list \<^verbatim>\<open>alerts_triggered\<close> whose messages
  are then handed to \<^verbatim>\<open>_send_alert\<close> one by one, in the order cpu, memory, disk (in
  mount order), swap. With alerting disabled the function returns before any check, so
  there is nothing to hand over. An exception in one check leaves the function before
  any alert is sent.
\<close>

definition alerts_triggered :: "formats \<Rightarrow> config \<Rightarrow> metrics \<Rightarrow> py_exception + string list" where
  "alerts_triggered f cfg m =
     (if \<not> alerts_enabled cfg then Inr []
      else
        (let th = get_thresholds cfg in
         and_then (check_cpu f th m) (\<lambda>a1.
         and_then (check_memory f th m) (\<lambda>a2.
         and_then (check_disk f th m) (\<lambda>a3.
         and_then (check_swap f th m) (\<lambda>a4.
           Inr (a1 @ a2 @ a3 @ a4)))))))"

section \<open>Observable effects\<close>

text \<open>
  What a call does besides returning: log records, HTTP requests, SMTP sessions and
  sleeps, in the order they happen, and (as a mock would record them) the calls of the
  channel senders, by the sender's name. \<open>HttpPost url text\<close> is a request of a
  channel; \<open>PostMetrics i\<close> is the \<^verbatim>\<open>requests.post\<close> of the payload to the
  ingestion endpoint in the attempt of number \<open>i\<close> (counted from 0, as
  \<^verbatim>\<open>attempt\<close> is). The text of a log record is kept where it is the alert itself
  and shortened elsewhere (attempt numbers, durations and the text of an exception
  are left out). A time is a real number of seconds; the difference of two
  \<^verbatim>\<open>datetime\<close> values, read with \<^verbatim>\<open>total_seconds()\<close>, is the difference of the two
  numbers.
\<close>

datatype log_level = DEBUG | INFO | WARNING | ERROR | CRITICAL

datatype effect =
    Log log_level string
  | Call string
  | HttpPost string string
  | PostMetrics nat
  | SmtpSend string
  | Sleep real

definition falsy :: "string option \<Rightarrow> bool" where
  "falsy s = (case s of None \<Rightarrow> True | Some u \<Rightarrow> u = [])"

section \<open>The collector's alert router: \<^verbatim>\<open>MetricCollector._send_alert\<close>\<close>

text \<open>
  The state of a \<^verbatim>\<open>MetricCollector\<close>: the dictionary \<^verbatim>\<open>alert_cooldown\<close> from
  \<^verbatim>\<open>hash(message)\<close> to the time of the last firing, and the effects so far. Python's
  \<^verbatim>\<open>hash\<close> is a parameter \<open>h\<close> of the model.
\<close>

record 'k collector_state =
  alert_cooldown :: "'k \<rightharpoonup> real"
  effects :: "effect list"

definition emit :: "effect \<Rightarrow> 'k collector_state \<Rightarrow> 'k collector_state" where
  "emit e st = st\<lparr>effects := effects st @ [e]\<rparr>"

text \<open>
  \<^verbatim>\<open>_send_slack_alert\<close> (lines 265-279). \<open>post\<close> is what \<^verbatim>\<open>requests.post\<close>
  followed by \<^verbatim>\<open>raise_for_status\<close> does this time: \<open>None\<close> when both return, the
  exception otherwise. The second component of the result is the exception the call
  raises, if any.
\<close>

definition mc_send_slack_alert ::
  "config \<Rightarrow> py_exception option \<Rightarrow> string \<Rightarrow> 'k collector_state \<Rightarrow> 'k collector_state \<times> py_exception option" where
  "mc_send_slack_alert cfg post message st =
     (let st0 = emit (Call ''_send_slack_alert'') st;
          webhook_url = slack_webhook_url (alerts_section cfg) in
      if falsy webhook_url then (emit (Log ERROR ''Slack webhook URL not configured'') st0, None)
      else (emit (HttpPost (get_or webhook_url []) message) st0, post))"

text \<open>\<^verbatim>\<open>_send_email_alert\<close> (lines 281-284), a placeholder that only logs.\<close>

definition mc_send_email_alert :: "string \<Rightarrow> 'k collector_state \<Rightarrow> 'k collector_state \<times> py_exception option" where
  "mc_send_email_alert message st =
     (emit (Log INFO (''Email alert (not implemented): '' @ message))
        (emit (Call ''_send_email_alert'') st), None)"

text \<open>
  The loop over the channels (lines 255-263); \<open>net i\<close> is the outcome of the HTTP request
  of the channel at position \<open>i\<close>. An exception of a channel is caught and logged, and the
  loop goes on.
\<close>

fun mc_channel_loop ::
  "config \<Rightarrow> (nat \<Rightarrow> py_exception option) \<Rightarrow> string \<Rightarrow> nat \<Rightarrow> string list \<Rightarrow> 'k collector_state \<Rightarrow> 'k collector_state" where
  "mc_channel_loop cfg net message i [] st = st"
| "mc_channel_loop cfg net message i (channel # rest) st =
     (let (st1, raised) =
            (if channel = ''slack'' then mc_send_slack_alert cfg (net i) message st
             else if channel = ''email'' then mc_send_email_alert message st
             else (st, None));
          st2 = (case raised of None \<Rightarrow> st1
                 | Some e \<Rightarrow> emit (Log ERROR (''Failed to send alert via '' @ channel)) st1)
      in mc_channel_loop cfg net message (Suc i) rest st2)"

text \<open>
  \<^verbatim>\<open>_send_alert\<close> (lines 235-263). \<open>current_time\<close> is the reading of
  \<^verbatim>\<open>datetime.utcnow()\<close> in this call.
\<close>

definition mc_in_cooldown :: "(string \<Rightarrow> 'k) \<Rightarrow> config \<Rightarrow> real \<Rightarrow> string \<Rightarrow> 'k collector_state \<Rightarrow> bool" where
  "mc_in_cooldown h cfg current_time message st =
     (let cooldown_key = h message;
          cooldown_mins = get_or (cooldown_minutes (alerts_section cfg)) 5
      in case alert_cooldown st cooldown_key of
           None \<Rightarrow> False
         | Some last_fired \<Rightarrow> (current_time - last_fired) / 60 < cooldown_mins)"

definition mc_send_alert ::
  "(string \<Rightarrow> 'k) \<Rightarrow> config \<Rightarrow> (nat \<Rightarrow> py_exception option) \<Rightarrow> real \<Rightarrow> string \<Rightarrow> 'k collector_state \<Rightarrow> 'k collector_state" where
  "mc_send_alert h cfg net current_time message st =
     (if mc_in_cooldown h cfg current_time message st then st
      else
        (let st1 = st\<lparr>alert_cooldown := (alert_cooldown st)(h message \<mapsto> current_time)\<rparr>;
             st2 = emit (Log WARNING (''ALERT: '' @ message)) st1;
             alert_channels = get_or (channels (alerts_section cfg)) [''log'']
         in mc_channel_loop cfg net message 0 alert_channels st2))"



section \<open>The delivery client: \<^verbatim>\<open>send_metrics\<close>\<close>


definition endpoint_section :: "config \<Rightarrow> endpoint_config" where
  "endpoint_section cfg = get_or (endpoint cfg) \<lparr>max_retries = None, retry_delay = None\<rparr>"


text \<open>
  \<^verbatim>\<open>time.sleep(secs)\<close>: a negative argument raises \<^verbatim>\<open>ValueError\<close> and nothing is
  slept.
\<close>

definition time_sleep :: "real \<Rightarrow> 'k collector_state \<Rightarrow> 'k collector_state \<times> py_exception option" where
  "time_sleep secs st = (if secs < 0 then (st, Some ValueError) else (emit (Sleep secs) st, None))"



section \<open>The scheduler: \<^verbatim>\<open>run\<close>\<close>

text \<open>
  What leaves the body of the \<^verbatim>\<open>try\<close> in the loop of \<^verbatim>\<open>run\<close>: a
  \<^verbatim>\<open>KeyboardInterrupt\<close>, which is no \<^verbatim>\<open>Exception\<close>, or an \<^verbatim>\<open>Exception\<close>.
\<close>

datatype raised = KeyboardInterrupt | Exception py_exception





section \<open>Vocabulary for the properties of the evaluator\<close>

text \<open>
  An alert is a message; the family that triggered it is read off the fixed text the
  message starts with.
\<close>

definition is_cpu_alert :: "string \<Rightarrow> bool" where
  "is_cpu_alert a = prefix ''High CPU usage: '' a"

definition is_memory_alert :: "string \<Rightarrow> bool" where
  "is_memory_alert a = prefix ''High memory usage: '' a"

definition is_disk_alert :: "string \<Rightarrow> bool" where
  "is_disk_alert a = prefix ''High disk usage on '' a"

definition is_swap_alert :: "string \<Rightarrow> bool" where
  "is_swap_alert a = prefix ''High swap usage: '' a"

text \<open>
  A mount is over the threshold when its entry is a dictionary with a \<^verbatim>\<open>percent\<close>
  above it; \<open>mount_alert\<close> is the message of such a mount.
\<close>

definition over_threshold :: "real \<Rightarrow> disk_entry \<Rightarrow> bool" where
  "over_threshold t e = (case e of NotADict \<Rightarrow> False
     | DiskDict d \<Rightarrow> (case d_percent d of None \<Rightarrow> False | Some p \<Rightarrow> p > t))"

definition mount_alert :: "formats \<Rightarrow> real \<Rightarrow> disk_entry \<Rightarrow> string" where
  "mount_alert f t e = (case e of NotADict \<Rightarrow> []
     | DiskDict d \<Rightarrow> disk_message f d (get_or (d_percent d) 0) t)"

text \<open>
  The configuration of \<^verbatim>\<open>tests/test_collector.py\<close> (thresholds 80, 85, 90 and 50,
  alerts enabled, cooldown of five minutes, the log channel only, three retries), and
  the same with alerting switched off.
\<close>

definition test_config :: config where
  "test_config = \<lparr>
     endpoint = Some \<lparr>max_retries = Some (PyInt 3), retry_delay = Some 1\<rparr>,
     interval_seconds = 30,
     thresholds = Some [''cpu'' \<mapsto> 80, ''memory'' \<mapsto> 85, ''disk'' \<mapsto> 90, ''swap'' \<mapsto> 50],
     alerts = Some \<lparr>enabled = Some True, cooldown_minutes = Some 5, channels = Some [''log''],
                     slack_webhook_url = None\<rparr>\<rparr>"

definition disabled_config :: config where
  "disabled_config = test_config\<lparr>alerts := Some \<lparr>enabled = Some False, cooldown_minutes = Some 5,
     channels = Some [''log''], slack_webhook_url = None\<rparr>\<rparr>"

definition no_metrics :: metrics where
  "no_metrics = \<lparr>cpu = None, memory = None, disk = None, swap = None\<rparr>"

text \<open>
  Snapshots for the examples: the CPU at 85 percent, the CPU exactly at its threshold of
  80 percent, and two mounts of which only the first is over the disk threshold of 90
  percent.
\<close>

definition hot_cpu :: metrics where
  "hot_cpu = no_metrics\<lparr>cpu := Some [''percent'' \<mapsto> 85]\<rparr>"

definition cpu_at_threshold :: metrics where
  "cpu_at_threshold = no_metrics\<lparr>cpu := Some [''percent'' \<mapsto> 80]\<rparr>"

definition two_mounts :: metrics where
  "two_mounts = no_metrics\<lparr>disk := Some
     [DiskDict \<lparr>d_percent = Some 95, d_mountpoint = Some ''/''\<rparr>,
      DiskDict \<lparr>d_percent = Some 50, d_mountpoint = Some ''/home''\<rparr>]\<rparr>"

section \<open>The alert manager: \<^verbatim>\<open>alerts/slack_webhook.py\<close>\<close>

text \<open>
  The functions are modelled as they are written. (The module imports \<^verbatim>\<open>MimeText\<close>
  and \<^verbatim>\<open>MimeMultipart\<close> from the \<^verbatim>\<open>email\<close> package, which names these classes
  \<^verbatim>\<open>MIMEText\<close> and \<^verbatim>\<open>MIMEMultipart\<close>.)
\<close>

text \<open>
  The configuration of an \<^verbatim>\<open>AlertManager\<close>, as far as \<^verbatim>\<open>send_alert\<close> and the
  senders read it; \<open>am_email_complete\<close> says that the \<^verbatim>\<open>email\<close> section has all five
  keys the email sender asks for.
\<close>

record am_config =
  am_channels :: "string list option"
  am_cooldown_minutes :: "real option"
  am_slack_webhook_url :: "string option"
  am_webhook_url :: "string option"
  am_email_complete :: bool

record alert_data =
  ad_timestamp :: real
  ad_hostname :: string
  ad_alert_type :: string
  ad_message :: string
  ad_value :: "real option"
  ad_threshold :: "real option"
  ad_severity :: string

text \<open>
  The state of an \<^verbatim>\<open>AlertManager\<close>: \<^verbatim>\<open>alert_history\<close>, from the key
  \<^verbatim>\<open>f"{hostname}:{alert_type}"\<close> to the time of the last firing, and the effects so far.
\<close>

record am_state =
  alert_history :: "string \<rightharpoonup> real"
  am_effects :: "effect list"

text \<open>
  The readings of \<^verbatim>\<open>datetime.utcnow()\<close> during one call of \<^verbatim>\<open>send_alert\<close>: in
  \<^verbatim>\<open>_is_in_cooldown\<close>, in \<^verbatim>\<open>_update_alert_history\<close> and for the timestamp of the
  alert.
\<close>

record am_clock =
  check_time :: real
  update_time :: real
  data_time :: real

definition am_emit :: "effect list \<Rightarrow> am_state \<Rightarrow> am_state" where
  "am_emit es st = st\<lparr>am_effects := am_effects st @ es\<rparr>"

definition am_key :: "string \<Rightarrow> string \<Rightarrow> string" where
  "am_key hostname alert_type = hostname @ '':'' @ alert_type"

text \<open>\<^verbatim>\<open>_is_in_cooldown\<close> (lines 80-89).\<close>

definition am_is_in_cooldown :: "am_config \<Rightarrow> real \<Rightarrow> string \<Rightarrow> string \<Rightarrow> am_state \<Rightarrow> bool" where
  "am_is_in_cooldown cfg now alert_type hostname st =
     (let key = am_key hostname alert_type;
          cooldown_mins = get_or (am_cooldown_minutes cfg) 5
      in case alert_history st key of
           Some last_fired \<Rightarrow> now - last_fired < cooldown_mins * 60
         | None \<Rightarrow> False)"

text \<open>\<^verbatim>\<open>_update_alert_history\<close> (lines 91-94).\<close>

definition am_update_alert_history :: "real \<Rightarrow> string \<Rightarrow> string \<Rightarrow> am_state \<Rightarrow> am_state" where
  "am_update_alert_history now alert_type hostname st =
     st\<lparr>alert_history := (alert_history st)(am_key hostname alert_type \<mapsto> now)\<rparr>"

text \<open>
  The senders. Each returns the effects it has and the exception it raises, if any;
  \<open>io\<close> is what the network operation of the sender does this time (\<open>None\<close> when it
  succeeds).
\<close>

text \<open>\<^verbatim>\<open>_log_alert\<close> (lines 96-112).\<close>

definition severity_level :: "string \<Rightarrow> log_level" where
  "severity_level severity =
     (if severity = ''critical'' then CRITICAL
      else if severity = ''error'' then ERROR
      else if severity = ''warning'' then WARNING
      else if severity = ''info'' then INFO
      else WARNING)"

definition am_log_alert :: "formats \<Rightarrow> alert_data \<Rightarrow> effect list \<times> py_exception option" where
  "am_log_alert f a =
     (let level = severity_level (ad_severity a);
          message = ''ALERT ['' @ str_upper f (ad_severity a) @ ''] '' @ ad_hostname a @ '': '' @ ad_message a;
          message' = (case (ad_value a, ad_threshold a) of
                        (Some v, Some t) \<Rightarrow>
                          message @ '' (Value: '' @ str_number f v @ '', Threshold: '' @ str_number f t @ '')''
                      | _ \<Rightarrow> message)
      in ([Call ''_log_alert'', Log level message'], None))"

text \<open>\<^verbatim>\<open>_send_slack_alert\<close> (lines 114-156).\<close>

definition am_send_slack_alert :: "am_config \<Rightarrow> py_exception option \<Rightarrow> alert_data \<Rightarrow> effect list \<times> py_exception option" where
  "am_send_slack_alert cfg io a =
     (let webhook_url = am_slack_webhook_url cfg in
      if falsy webhook_url then ([Call ''_send_slack_alert''], Some ValueError)
      else
        (case io of
           Some e \<Rightarrow> ([Call ''_send_slack_alert'', HttpPost (get_or webhook_url []) (ad_message a)], Some e)
         | None \<Rightarrow>
             ([Call ''_send_slack_alert'', HttpPost (get_or webhook_url []) (ad_message a),
               Log INFO (''Slack alert sent successfully for '' @ ad_hostname a)], None)))"

text \<open>\<^verbatim>\<open>_send_email_alert\<close> (lines 158-194).\<close>

definition am_send_email_alert :: "am_config \<Rightarrow> py_exception option \<Rightarrow> alert_data \<Rightarrow> effect list \<times> py_exception option" where
  "am_send_email_alert cfg io a =
     (if \<not> am_email_complete cfg then ([Call ''_send_email_alert''], Some ValueError)
      else
        (case io of
           Some e \<Rightarrow> ([Call ''_send_email_alert'', SmtpSend (ad_message a)], Some e)
         | None \<Rightarrow>
             ([Call ''_send_email_alert'', SmtpSend (ad_message a),
               Log INFO (''Email alert sent successfully for '' @ ad_hostname a)], None)))"

text \<open>\<^verbatim>\<open>_send_webhook_alert\<close> (lines 196-206).\<close>

definition am_send_webhook_alert :: "am_config \<Rightarrow> py_exception option \<Rightarrow> alert_data \<Rightarrow> effect list \<times> py_exception option" where
  "am_send_webhook_alert cfg io a =
     (let webhook_url = am_webhook_url cfg in
      if falsy webhook_url then ([Call ''_send_webhook_alert''], Some ValueError)
      else
        (case io of
           Some e \<Rightarrow> ([Call ''_send_webhook_alert'', HttpPost (get_or webhook_url []) (ad_message a)], Some e)
         | None \<Rightarrow>
             ([Call ''_send_webhook_alert'', HttpPost (get_or webhook_url []) (ad_message a),
               Log INFO (''Webhook alert sent successfully for '' @ ad_hostname a)], None)))"

text \<open>The body of the \<^verbatim>\<open>try\<close> in the loop of \<^verbatim>\<open>send_alert\<close> (lines 64-73).\<close>

definition am_dispatch :: "formats \<Rightarrow> am_config \<Rightarrow> py_exception option \<Rightarrow> alert_data \<Rightarrow> string \<Rightarrow> effect list \<times> py_exception option" where
  "am_dispatch f cfg io a channel =
     (if channel = ''slack'' then am_send_slack_alert cfg io a
      else if channel = ''email'' then am_send_email_alert cfg io a
      else if channel = ''webhook'' then am_send_webhook_alert cfg io a
      else if channel = ''log'' then am_log_alert f a
      else ([Log WARNING (''Unknown alert channel: '' @ channel)], None))"

text \<open>
  The loop of \<^verbatim>\<open>send_alert\<close> (lines 62-76): \<open>net i\<close> is what the network does for the
  channel at position \<open>i\<close>. An exception of a channel is logged and sets
  \<^verbatim>\<open>success\<close> to false; the loop goes on with the next channel.
\<close>

fun am_channel_loop ::
  "formats \<Rightarrow> am_config \<Rightarrow> (nat \<Rightarrow> py_exception option) \<Rightarrow> alert_data \<Rightarrow> nat \<Rightarrow> string list \<Rightarrow> bool \<times> am_state \<Rightarrow> bool \<times> am_state" where
  "am_channel_loop f cfg net a i [] (success, st) = (success, st)"
| "am_channel_loop f cfg net a i (channel # rest) (success, st) =
     (case am_dispatch f cfg (net i) a channel of
        (es, None) \<Rightarrow> am_channel_loop f cfg net a (Suc i) rest (success, am_emit es st)
      | (es, Some e) \<Rightarrow>
          am_channel_loop f cfg net a (Suc i) rest
            (False, am_emit (es @ [Log ERROR (''Failed to send alert via '' @ channel)]) st))"

text \<open>\<^verbatim>\<open>send_alert\<close> (lines 30-78).\<close>

definition am_send_alert ::
  "formats \<Rightarrow> am_config \<Rightarrow> (nat \<Rightarrow> py_exception option) \<Rightarrow> am_clock \<Rightarrow> string \<Rightarrow> string \<Rightarrow> string \<Rightarrow>
   real option \<Rightarrow> real option \<Rightarrow> string \<Rightarrow> am_state \<Rightarrow> bool \<times> am_state" where
  "am_send_alert f cfg net clk alert_type message hostname val threshold severity st =
     (if am_is_in_cooldown cfg (check_time clk) alert_type hostname st then
        (False, am_emit [Log DEBUG (''Alert '' @ alert_type @ '' for '' @ hostname @ '' is in cooldown, skipping'')] st)
      else
        (let st1 = am_update_alert_history (update_time clk) alert_type hostname st;
             a = \<lparr>ad_timestamp = data_time clk, ad_hostname = hostname, ad_alert_type = alert_type,
                  ad_message = message, ad_value = val, ad_threshold = threshold,
                  ad_severity = severity\<rparr>;
             chans = get_or (am_channels cfg) [''log'']
         in am_channel_loop f cfg net a 0 chans (True, st1)))"

section \<open>Vocabulary for the properties of the routers\<close>

text \<open>The senders called, in order, as a list of effects records them.\<close>

definition calls :: "effect list \<Rightarrow> string list" where
  "calls es = concat (map (\<lambda>e. case e of Call n \<Rightarrow> [n] | _ \<Rightarrow> []) es)"

text \<open>The sender behind a channel name, in the alert manager and in the collector.\<close>

definition am_sender :: "string \<Rightarrow> string list" where
  "am_sender channel =
     (if channel = ''slack'' then [''_send_slack_alert'']
      else if channel = ''email'' then [''_send_email_alert'']
      else if channel = ''webhook'' then [''_send_webhook_alert'']
      else if channel = ''log'' then [''_log_alert'']
      else [])"

definition mc_sender :: "string \<Rightarrow> string list" where
  "mc_sender channel =
     (if channel = ''slack'' then [''_send_slack_alert'']
      else if channel = ''email'' then [''_send_email_alert'']
      else [])"

text \<open>What the send of each channel raises, by position (\<open>None\<close>: nothing).\<close>

fun am_outcomes ::
  "formats \<Rightarrow> am_config \<Rightarrow> (nat \<Rightarrow> py_exception option) \<Rightarrow> alert_data \<Rightarrow> nat \<Rightarrow> string list \<Rightarrow> py_exception option list" where
  "am_outcomes f cfg net a i [] = []"
| "am_outcomes f cfg net a i (channel # rest) =
     snd (am_dispatch f cfg (net i) a channel) # am_outcomes f cfg net a (Suc i) rest"

text \<open>The alert record of the collector's log for a message.\<close>

definition alert_record :: "string \<Rightarrow> effect" where
  "alert_record message = Log WARNING (''ALERT: '' @ message)"

text \<open>
  An alert manager with a Slack webhook and the channels slack and log; a network on
  which every request fails; fresh states.
\<close>

definition slack_and_log :: am_config where
  "slack_and_log = \<lparr>am_channels = Some [''slack'', ''log''], am_cooldown_minutes = Some 5,
     am_slack_webhook_url = Some ''https://hooks.example/T'', am_webhook_url = None,
     am_email_complete = False\<rparr>"

definition net_down :: "nat \<Rightarrow> py_exception option" where
  "net_down i = Some RequestException"

definition am_fresh :: am_state where
  "am_fresh = \<lparr>alert_history = Map.empty, am_effects = []\<rparr>"

definition mc_fresh :: "string collector_state" where
  "mc_fresh = \<lparr>alert_cooldown = Map.empty, effects = []\<rparr>"

definition clock_at :: "real \<Rightarrow> am_clock" where
  "clock_at t = \<lparr>check_time = t, update_time = t, data_time = t\<rparr>"

text \<open>
  An \<^verbatim>\<open>AlertManager()\<close> without a configuration file (its \<^verbatim>\<open>config\<close> is empty: the
  log channel, five minutes of cooldown).
\<close>

definition am_defaults :: am_config where
  "am_defaults = \<lparr>am_channels = None, am_cooldown_minutes = None, am_slack_webhook_url = None,
     am_webhook_url = None, am_email_complete = False\<rparr>"

text \<open>
  The messages \<^verbatim>\<open>check_alerts\<close> builds for a CPU at 85.0 and at 86.0 percent against
  the threshold 80.
\<close>

definition cpu_alert_85 :: string where
  "cpu_alert_85 = ''High CPU usage: 85.0% (threshold: 80%)''"

definition cpu_alert_86 :: string where
  "cpu_alert_86 = ''High CPU usage: 86.0% (threshold: 80%)''"

text \<open>A collector with the channels slack and email and a Slack webhook.\<close>

definition slack_collector :: config where
  "slack_collector = test_config\<lparr>alerts := Some \<lparr>enabled = Some True, cooldown_minutes = Some 5,
     channels = Some [''slack'', ''email''], slack_webhook_url = Some ''https://hooks.example/T''\<rparr>\<rparr>"

text \<open>A collector whose only channel is webhook.\<close>

definition webhook_collector :: config where
  "webhook_collector = test_config\<lparr>alerts := Some \<lparr>enabled = Some True, cooldown_minutes = Some 5,
     channels = Some [''webhook''], slack_webhook_url = Some ''https://hooks.example/T''\<rparr>\<rparr>"

section \<open>Vocabulary for the properties of the delivery client and the scheduler\<close>

text \<open>The attempts in which the payload was posted to the endpoint, in order.\<close>

definition posts :: "effect list \<Rightarrow> nat list" where
  "posts es = concat (map (\<lambda>e. case e of PostMetrics i \<Rightarrow> [i] | _ \<Rightarrow> []) es)"










section \<open>The ingestion service: \<^verbatim>\<open>cloud_ingestion/server.py\<close>\<close>

subsection \<open>The request models\<close>

text \<open>
  The pydantic models (lines 38-105), as records of fields of the declared types. A body
  of another shape (a missing field, a string for a number) is outside the model; FastAPI
  rejects it in the same way as a body that fails a field constraint. An optional field
  is of option type.
\<close>

record cpu_metrics =
  cm_percent :: real
  cm_count :: int
  cm_count_logical :: int
  cm_load_avg :: "real list option"

record memory_metrics =
  mm_total :: int
  mm_available :: int
  mm_percent :: real
  mm_used :: int
  mm_free :: int
  mm_buffers :: "int option"
  mm_cached :: "int option"

record swap_metrics =
  sm_total :: int
  sm_used :: int
  sm_free :: int
  sm_percent :: real

record disk_metrics =
  dm_device :: string
  dm_mountpoint :: string
  dm_fstype :: string
  dm_total :: int
  dm_used :: int
  dm_free :: int
  dm_percent :: real

record network_metrics =
  nm_bytes_sent :: int
  nm_bytes_recv :: int
  nm_packets_sent :: int
  nm_packets_recv :: int
  nm_errin :: "int option"
  nm_errout :: "int option"
  nm_dropin :: "int option"
  nm_dropout :: "int option"

record process_metrics =
  pm_pid :: int
  pm_name :: string
  pm_cpu_percent :: real
  pm_memory_percent :: real

record system_metrics =
  sy_timestamp :: string
  sy_hostname :: string
  sy_cpu :: cpu_metrics
  sy_memory :: memory_metrics
  sy_swap :: swap_metrics
  sy_disk :: "disk_metrics list"
  sy_network :: "network_metrics option"
  sy_top_processes :: "process_metrics list option"
  sy_error :: "string option"

record metrics_payload =
  mp_hostname :: string
  mp_metrics :: system_metrics

subsection \<open>Field validation\<close>

text \<open>
  \<^verbatim>\<open>Field(..., ge=0, le=100)\<close>, \<^verbatim>\<open>gt=0\<close>, \<^verbatim>\<open>ge=0\<close>, \<^verbatim>\<open>min_length\<close> and
  \<^verbatim>\<open>max_length\<close>, field by field. A field with a default is checked only when it is
  given.
\<close>

definition percent_ok :: "real \<Rightarrow> bool" where
  "percent_ok p = (0 \<le> p \<and> p \<le> 100)"

definition given_ge0 :: "int option \<Rightarrow> bool" where
  "given_ge0 v = (case v of None \<Rightarrow> True | Some x \<Rightarrow> 0 \<le> x)"

definition validate_cpu :: "cpu_metrics \<Rightarrow> bool" where
  "validate_cpu c = (percent_ok (cm_percent c) \<and> 0 < cm_count c \<and> 0 < cm_count_logical c)"

definition validate_memory :: "memory_metrics \<Rightarrow> bool" where
  "validate_memory m =
     (0 < mm_total m \<and> 0 \<le> mm_available m \<and> percent_ok (mm_percent m) \<and> 0 \<le> mm_used m \<and>
      0 \<le> mm_free m \<and> given_ge0 (mm_buffers m) \<and> given_ge0 (mm_cached m))"

definition validate_swap :: "swap_metrics \<Rightarrow> bool" where
  "validate_swap s =
     (0 \<le> sm_total s \<and> 0 \<le> sm_used s \<and> 0 \<le> sm_free s \<and> percent_ok (sm_percent s))"

definition validate_disk :: "disk_metrics \<Rightarrow> bool" where
  "validate_disk d =
     (0 < dm_total d \<and> 0 \<le> dm_used d \<and> 0 \<le> dm_free d \<and> percent_ok (dm_percent d))"

definition validate_network :: "network_metrics \<Rightarrow> bool" where
  "validate_network n =
     (0 \<le> nm_bytes_sent n \<and> 0 \<le> nm_bytes_recv n \<and> 0 \<le> nm_packets_sent n \<and>
      0 \<le> nm_packets_recv n \<and> given_ge0 (nm_errin n) \<and> given_ge0 (nm_errout n) \<and>
      given_ge0 (nm_dropin n) \<and> given_ge0 (nm_dropout n))"

definition validate_process :: "process_metrics \<Rightarrow> bool" where
  "validate_process p = (0 \<le> pm_cpu_percent p \<and> percent_ok (pm_memory_percent p))"

text \<open>
  \<^verbatim>\<open>validate_timestamp\<close> (lines 95-101): every \<^verbatim>\<open>Z\<close> is replaced by \<^verbatim>\<open>+00:00\<close> and
  the result handed to \<^verbatim>\<open>datetime.fromisoformat\<close>, a function of the Python library;
  \<open>parses\<close> says which strings it accepts.
\<close>

definition replace_Z :: "string \<Rightarrow> string" where
  "replace_Z v = concat (map (\<lambda>c. if c = CHR ''Z'' then ''+00:00'' else [c]) v)"

definition validate_timestamp :: "(string \<Rightarrow> bool) \<Rightarrow> string \<Rightarrow> bool" where
  "validate_timestamp parses v = parses (replace_Z v)"

definition validate_system :: "(string \<Rightarrow> bool) \<Rightarrow> system_metrics \<Rightarrow> bool" where
  "validate_system parses s =
     (validate_timestamp parses (sy_timestamp s) \<and> validate_cpu (sy_cpu s) \<and>
      validate_memory (sy_memory s) \<and> validate_swap (sy_swap s) \<and>
      list_all validate_disk (sy_disk s) \<and>
      (case sy_network s of None \<Rightarrow> True | Some n \<Rightarrow> validate_network n) \<and>
      (case sy_top_processes s of None \<Rightarrow> True | Some ps \<Rightarrow> list_all validate_process ps))"

definition validate_payload :: "(string \<Rightarrow> bool) \<Rightarrow> metrics_payload \<Rightarrow> bool" where
  "validate_payload parses p =
     (1 \<le> length (mp_hostname p) \<and> length (mp_hostname p) \<le> 255 \<and>
      validate_system parses (mp_metrics p))"

subsection \<open>The store\<close>

text \<open>
  A row of the table \<^verbatim>\<open>metrics\<close>, the committed content of the database file with the
  last identifier \<^verbatim>\<open>AUTOINCREMENT\<close> gave out, and an open SQLite connection: the
  database it is connected to and the rows inserted in its transaction but not yet
  committed.
\<close>

record stored_row =
  r_id :: nat
  r_timestamp :: string
  r_hostname :: string
  r_cpu_percent :: real
  r_memory_percent :: real
  r_memory_total :: int
  r_memory_used :: int
  r_swap_percent :: real
  r_disk_data :: string
  r_network_data :: "string option"
  r_raw_data :: string
  r_created_at :: real

record database =
  rows :: "stored_row list"
  last_id :: nat

record connection =
  db :: database
  pending :: "stored_row list"

text \<open>
  What the world does during one call of \<^verbatim>\<open>store_metrics\<close>: whether
  \<^verbatim>\<open>sqlite3.connect\<close>, the \<^verbatim>\<open>INSERT\<close> and the \<^verbatim>\<open>commit\<close> raise (\<open>None\<close>: they do
  not), and the time \<^verbatim>\<open>CURRENT_TIMESTAMP\<close> gives. \<^verbatim>\<open>json.dumps\<close> on the three values
  the function serialises is a parameter too; it returns the text or raises.
\<close>

record store_env =
  connect_outcome :: "py_exception option"
  execute_outcome :: "py_exception option"
  commit_outcome :: "py_exception option"
  current_timestamp :: real

record json_codec =
  dumps_disks :: "disk_metrics list \<Rightarrow> py_exception + string"
  dumps_network :: "network_metrics \<Rightarrow> py_exception + string"
  dumps_payload :: "metrics_payload \<Rightarrow> py_exception + string"

definition connect :: "store_env \<Rightarrow> database \<Rightarrow> py_exception + connection" where
  "connect env d = (case connect_outcome env of
      Some e \<Rightarrow> Inl e
    | None \<Rightarrow> Inr \<lparr>db = d, pending = []\<rparr>)"

text \<open>The \<^verbatim>\<open>INSERT\<close>: the new row joins the open transaction.\<close>

definition execute_insert :: "store_env \<Rightarrow> stored_row \<Rightarrow> connection \<Rightarrow> py_exception + connection" where
  "execute_insert env vals conn = (case execute_outcome env of
      Some e \<Rightarrow> Inl e
    | None \<Rightarrow> Inr (conn\<lparr>pending := pending conn @
        [vals\<lparr>r_id := last_id (db conn) + length (pending conn) + 1,
                r_created_at := current_timestamp env\<rparr>]\<rparr>))"

text \<open>
  \<^verbatim>\<open>commit\<close> makes the rows of the transaction part of the database; when it raises,
  the transaction stays open. \<^verbatim>\<open>rollback\<close> drops them, and so does \<^verbatim>\<open>close\<close> with
  a transaction still open.
\<close>

definition commit :: "store_env \<Rightarrow> connection \<Rightarrow> py_exception + connection" where
  "commit env conn = (case commit_outcome env of
      Some e \<Rightarrow> Inl e
    | None \<Rightarrow> Inr \<lparr>db = \<lparr>rows = rows (db conn) @ pending conn,
                         last_id = last_id (db conn) + length (pending conn)\<rparr>,
                   pending = []\<rparr>)"

definition rollback :: "connection \<Rightarrow> connection" where
  "rollback conn = conn\<lparr>pending := []\<rparr>"

definition close :: "connection \<Rightarrow> database" where
  "close conn = db conn"

text \<open>
  The context manager \<^verbatim>\<open>_get_connection\<close> (lines 151-165) around a body: the body gets
  the connection and returns the connection as it left it together with its value or
  the exception it raised. After an exception the manager rolls back, raises the
  exception again and closes; without one it only closes. When \<^verbatim>\<open>connect\<close> itself
  raises there is no connection to roll back or close.
\<close>

definition get_connection ::
  "store_env \<Rightarrow> database \<Rightarrow> (connection \<Rightarrow> connection \<times> (py_exception + 'a)) \<Rightarrow> database \<times> (py_exception + 'a)" where
  "get_connection env d body =
     (case connect env d of
        Inl e \<Rightarrow> (d, Inl e)
      | Inr conn \<Rightarrow>
          (case body conn of
             (conn', Inl e) \<Rightarrow> (close (rollback conn'), Inl e)
           | (conn', Inr v) \<Rightarrow> (close conn', Inr v)))"

text \<open>The values of the \<^verbatim>\<open>INSERT\<close> (lines 186-195).\<close>

definition row_values :: "metrics_payload \<Rightarrow> string \<Rightarrow> string option \<Rightarrow> string \<Rightarrow> stored_row" where
  "row_values payload disk_data network_data raw_data =
     \<lparr>r_id = 0,
      r_timestamp = sy_timestamp (mp_metrics payload),
      r_hostname = mp_hostname payload,
      r_cpu_percent = cm_percent (sy_cpu (mp_metrics payload)),
      r_memory_percent = mm_percent (sy_memory (mp_metrics payload)),
      r_memory_total = mm_total (sy_memory (mp_metrics payload)),
      r_memory_used = mm_used (sy_memory (mp_metrics payload)),
      r_swap_percent = sm_percent (sy_swap (mp_metrics payload)),
      r_disk_data = disk_data,
      r_network_data = network_data,
      r_raw_data = raw_data,
      r_created_at = 0\<rparr>"

text \<open>The body of the \<^verbatim>\<open>with\<close> in \<^verbatim>\<open>store_metrics\<close> (lines 172-199).\<close>

definition store_body ::
  "store_env \<Rightarrow> json_codec \<Rightarrow> metrics_payload \<Rightarrow> connection \<Rightarrow> connection \<times> (py_exception + bool)" where
  "store_body env codec payload conn =
     (case dumps_disks codec (sy_disk (mp_metrics payload)) of
        Inl e \<Rightarrow> (conn, Inl e)
      | Inr disk_data \<Rightarrow>
     (case (case sy_network (mp_metrics payload) of
              None \<Rightarrow> Inr None
            | Some n \<Rightarrow> (case dumps_network codec n of Inl e \<Rightarrow> Inl e | Inr t \<Rightarrow> Inr (Some t))) of
        Inl e \<Rightarrow> (conn, Inl e)
      | Inr network_data \<Rightarrow>
     (case dumps_payload codec payload of
        Inl e \<Rightarrow> (conn, Inl e)
      | Inr raw_data \<Rightarrow>
     (case execute_insert env (row_values payload disk_data network_data raw_data) conn of
        Inl e \<Rightarrow> (conn, Inl e)
      | Inr conn1 \<Rightarrow>
     (case commit env conn1 of
        Inl e \<Rightarrow> (conn1, Inl e)
      | Inr conn2 \<Rightarrow> (conn2, Inr True))))))"

text \<open>
  \<^verbatim>\<open>store_metrics\<close> (lines 167-203): every exception ends in \<^verbatim>\<open>return False\<close>. The
  lock only serialises callers and has no part in a single call.
\<close>

definition store_metrics :: "store_env \<Rightarrow> json_codec \<Rightarrow> database \<Rightarrow> metrics_payload \<Rightarrow> database \<times> bool" where
  "store_metrics env codec d payload =
     (case get_connection env d (store_body env codec payload) of
        (d', Inr ok) \<Rightarrow> (d', ok)
      | (d', Inl e) \<Rightarrow> (d', False))"

subsection \<open>The write endpoint\<close>

text \<open>
  \<^verbatim>\<open>HTTPException(status_code, detail)\<close>; and what a request leaves behind: the status
  of the response, how often \<^verbatim>\<open>store_metrics\<close> was called, and the database.
\<close>

datatype http_exception = HTTPException nat

record ingest_result =
  status_code :: nat
  store_calls :: nat
  db_after :: database

text \<open>
  The handler \<^verbatim>\<open>ingest_metrics\<close> (lines 294-313), which FastAPI calls with a payload
  that passed validation: the database after it, and the response status it returns
  (\<open>Inr\<close>) or the exception it raises (\<open>Inl\<close>). The \<^verbatim>\<open>HTTPException(500)\<close> of the
  \<^verbatim>\<open>else\<close> branch is raised inside the \<^verbatim>\<open>try\<close>; it is an \<^verbatim>\<open>Exception\<close>, so the
  handler below catches it and raises \<^verbatim>\<open>HTTPException(400)\<close> in its place.
\<close>

definition ingest_try_body :: "store_env \<Rightarrow> json_codec \<Rightarrow> database \<Rightarrow> metrics_payload \<Rightarrow> database \<times> (http_exception + nat)" where
  "ingest_try_body env codec d payload =
     (case store_metrics env codec d payload of
        (d', True) \<Rightarrow> (d', Inr 200)
      | (d', False) \<Rightarrow> (d', Inl (HTTPException 500)))"

definition ingest_metrics :: "store_env \<Rightarrow> json_codec \<Rightarrow> database \<Rightarrow> metrics_payload \<Rightarrow> database \<times> (http_exception + nat)" where
  "ingest_metrics env codec d payload =
     (case ingest_try_body env codec d payload of
        (d', Inr response) \<Rightarrow> (d', Inr response)
      | (d', Inl e) \<Rightarrow> (d', Inl (HTTPException 400)))"

text \<open>
  Modelled from the spec: the dispatch of \<^verbatim>\<open>POST /ingest\<close>, which is FastAPI's and of
  which the repository holds only the route declaration \<^verbatim>\<open>@app.post("/ingest")\<close> and
  the handler. The spec has malformed input "rejected with a client-error status" so
  that it "never reaches the store"; the status is the 422 that
  \<^verbatim>\<open>tests/test_ingestion.py\<close> expects. So the body is validated against
  \<^verbatim>\<open>MetricsPayload\<close> first, and a body that fails gets the response 422 without a call
  of the handler. For a body that passes, the handler \<^verbatim>\<open>ingest_metrics\<close> of the source
  runs, and an \<^verbatim>\<open>HTTPException\<close> it raises becomes the response with its status.
\<close>

definition post_ingest :: "(string \<Rightarrow> bool) \<Rightarrow> store_env \<Rightarrow> json_codec \<Rightarrow> database \<Rightarrow> metrics_payload \<Rightarrow> ingest_result" where
  "post_ingest parses env codec d body =
     (if \<not> validate_payload parses body then \<lparr>status_code = 422, store_calls = 0, db_after = d\<rparr>
      else
        (case ingest_metrics env codec d body of
           (d', Inr response) \<Rightarrow> \<lparr>status_code = response, store_calls = 1, db_after = d'\<rparr>
         | (d', Inl (HTTPException code)) \<Rightarrow> \<lparr>status_code = code, store_calls = 1, db_after = d'\<rparr>))"

section \<open>Vocabulary for the properties of the ingestion service\<close>

text \<open>Some serialisation of \<^verbatim>\<open>store_metrics\<close> raises for this payload.\<close>

definition serialisation_fails :: "json_codec \<Rightarrow> metrics_payload \<Rightarrow> bool" where
  "serialisation_fails codec payload =
     (isl (dumps_disks codec (sy_disk (mp_metrics payload))) \<or>
      (case sy_network (mp_metrics payload) of None \<Rightarrow> False | Some n \<Rightarrow> isl (dumps_network codec n)) \<or>
      isl (dumps_payload codec payload))"

text \<open>Connecting, inserting or committing raises.\<close>

definition write_fails :: "store_env \<Rightarrow> bool" where
  "write_fails env =
     (connect_outcome env \<noteq> None \<or> execute_outcome env \<noteq> None \<or> commit_outcome env \<noteq> None)"

text \<open>
  The payload of \<^verbatim>\<open>tests/test_ingestion.py\<close>; a codec that serialises everything to a
  fixed text; a world in which the database works and one in which the commit fails; a
  database that holds one row already.
\<close>

definition test_payload :: metrics_payload where
  "test_payload = \<lparr>mp_hostname = ''test-host'',
     mp_metrics = \<lparr>sy_timestamp = ''2024-01-01T12:00:00'', sy_hostname = ''test-host'',
       sy_cpu = \<lparr>cm_percent = 50, cm_count = 4, cm_count_logical = 8, cm_load_avg = None\<rparr>,
       sy_memory = \<lparr>mm_total = 8589934592, mm_available = 4294967296, mm_percent = 50,
         mm_used = 4294967296, mm_free = 4294967296, mm_buffers = None, mm_cached = None\<rparr>,
       sy_swap = \<lparr>sm_total = 2147483648, sm_used = 0, sm_free = 2147483648, sm_percent = 0\<rparr>,
       sy_disk = [\<lparr>dm_device = ''/dev/sda1'', dm_mountpoint = ''/'', dm_fstype = ''ext4'',
         dm_total = 107374182400, dm_used = 53687091200, dm_free = 53687091200, dm_percent = 50\<rparr>],
       sy_network = None, sy_top_processes = None, sy_error = None\<rparr>\<rparr>"

definition plain_codec :: json_codec where
  "plain_codec = \<lparr>dumps_disks = (\<lambda>ds. Inr ''[...]''), dumps_network = (\<lambda>n. Inr ''{...}''),
     dumps_payload = (\<lambda>p. Inr ''{...}'')\<rparr>"

definition db_works :: store_env where
  "db_works = \<lparr>connect_outcome = None, execute_outcome = None, commit_outcome = None,
     current_timestamp = 1704110400\<rparr>"

definition commit_fails :: store_env where
  "commit_fails = db_works\<lparr>commit_outcome := Some OtherException\<rparr>"

definition one_row_db :: database where
  "one_row_db = \<lparr>rows = [(row_values test_payload ''[]'' None ''{}'')\<lparr>r_id := 1\<rparr>], last_id = 1\<rparr>"

text \<open>
  A parser for the examples that accepts the timestamp of the test payload only; and
  the test payload with a CPU percentage out of range, with no memory at all, and with
  a timestamp that is no date.
\<close>

definition only_test_time :: "string \<Rightarrow> bool" where
  "only_test_time v = (v = ''2024-01-01T12:00:00'')"

definition cpu_out_of_range :: metrics_payload where
  "cpu_out_of_range = test_payload\<lparr>mp_metrics := (mp_metrics test_payload)
     \<lparr>sy_cpu := \<lparr>cm_percent = 150, cm_count = 4, cm_count_logical = 8, cm_load_avg = None\<rparr>\<rparr>\<rparr>"

definition bad_timestamp :: metrics_payload where
  "bad_timestamp = test_payload\<lparr>mp_metrics := (mp_metrics test_payload)
     \<lparr>sy_timestamp := ''invalid-timestamp''\<rparr>\<rparr>"

text \<open>The test payload of a host without swap: every swap figure is zero.\<close>

definition swapless :: metrics_payload where
  "swapless = test_payload\<lparr>mp_metrics := (mp_metrics test_payload)
     \<lparr>sy_swap := \<lparr>sm_total = 0, sm_used = 0, sm_free = 0, sm_percent = 0\<rparr>\<rparr>\<rparr>"

section \<open>Properties of the threshold evaluator\<close>

lemma and_then_Inl [simp]: "and_then (Inl e) k = Inl e"
  by (simp add: and_then_def)

lemma and_then_Inr [simp]: "and_then (Inr v) k = k v"
  by (simp add: and_then_def)

lemma item_Some [simp]: "item (Some v) = Inr v"
  by (simp add: item_def)

lemma subscript_Some: "d k = Some v \<Longrightarrow> subscript d k = Inr v"
  by (simp add: subscript_def)

lemma check_cpu_eq:
  "check_cpu f th m = Inr (case th ''cpu'' of None \<Rightarrow> [] | Some t \<Rightarrow>
      (case cpu m of None \<Rightarrow> [] | Some c \<Rightarrow>
         if dict_get c ''percent'' 0 > t then [cpu_message f (dict_get c ''percent'' 0) t] else []))"
  by (auto simp: check_cpu_def subscript_def Let_def split: option.splits)

lemma check_memory_eq:
  "check_memory f th m = Inr (case th ''memory'' of None \<Rightarrow> [] | Some t \<Rightarrow>
      (case memory m of None \<Rightarrow> [] | Some c \<Rightarrow>
         if dict_get c ''percent'' 0 > t then [memory_message f (dict_get c ''percent'' 0) t] else []))"
  by (auto simp: check_memory_def subscript_def Let_def split: option.splits)

lemma check_swap_eq:
  "check_swap f th m = Inr (case th ''swap'' of None \<Rightarrow> [] | Some t \<Rightarrow>
      (case swap m of None \<Rightarrow> [] | Some c \<Rightarrow>
         if dict_get c ''percent'' 0 > t then [swap_message f (dict_get c ''percent'' 0) t] else []))"
  by (auto simp: check_swap_def subscript_def Let_def split: option.splits)

lemma over_threshold_simps [simp]:
  "over_threshold t NotADict = False"
  "over_threshold t (DiskDict d) = (case d_percent d of None \<Rightarrow> False | Some p \<Rightarrow> p > t)"
  by (simp_all add: over_threshold_def)

lemma mount_alert_DiskDict:
  "d_percent d = Some p \<Longrightarrow> mount_alert f t (DiskDict d) = disk_message f d p t"
  by (simp add: mount_alert_def get_or_def)

lemma check_disk_entries_eq:
  "check_disk_entries f t ds = Inr (map (mount_alert f t) (filter (over_threshold t) ds))"
proof (induction ds)
  case Nil
  show ?case by simp
next
  case (Cons e ds)
  show ?case
  proof (cases e)
    case NotADict
    with Cons show ?thesis by simp
  next
    case (DiskDict d)
    with Cons show ?thesis
      by (cases "d_percent d") (simp_all add: mount_alert_DiskDict)
  qed
qed

lemma check_disk_eq:
  "check_disk f th m = Inr (case th ''disk'' of None \<Rightarrow> [] | Some t \<Rightarrow>
      (case disk m of None \<Rightarrow> [] | Some ds \<Rightarrow> map (mount_alert f t) (filter (over_threshold t) ds)))"
  by (auto simp: check_disk_def subscript_def check_disk_entries_eq split: option.splits)


lemma kinds_cpu_message [simp]:
  "is_cpu_alert (cpu_message f p t)" "\<not> is_memory_alert (cpu_message f p t)"
  "\<not> is_disk_alert (cpu_message f p t)" "\<not> is_swap_alert (cpu_message f p t)"
  by (simp_all add: cpu_message_def is_cpu_alert_def is_memory_alert_def is_disk_alert_def
      is_swap_alert_def)

lemma kinds_memory_message [simp]:
  "\<not> is_cpu_alert (memory_message f p t)" "is_memory_alert (memory_message f p t)"
  "\<not> is_disk_alert (memory_message f p t)" "\<not> is_swap_alert (memory_message f p t)"
  by (simp_all add: memory_message_def is_cpu_alert_def is_memory_alert_def is_disk_alert_def
      is_swap_alert_def)

lemma kinds_swap_message [simp]:
  "\<not> is_cpu_alert (swap_message f p t)" "\<not> is_memory_alert (swap_message f p t)"
  "\<not> is_disk_alert (swap_message f p t)" "is_swap_alert (swap_message f p t)"
  by (simp_all add: swap_message_def is_cpu_alert_def is_memory_alert_def is_disk_alert_def
      is_swap_alert_def)

lemma kinds_disk_message [simp]:
  "\<not> is_cpu_alert (disk_message f d p t)" "\<not> is_memory_alert (disk_message f d p t)"
  "is_disk_alert (disk_message f d p t)" "\<not> is_swap_alert (disk_message f d p t)"
  by (simp_all add: disk_message_def is_cpu_alert_def is_memory_alert_def is_disk_alert_def
      is_swap_alert_def)

lemma kinds_mount_alert_NotADict [simp]:
  "\<not> is_cpu_alert (mount_alert f t NotADict)" "\<not> is_memory_alert (mount_alert f t NotADict)"
  "\<not> is_swap_alert (mount_alert f t NotADict)"
  by (simp_all add: mount_alert_def is_cpu_alert_def is_memory_alert_def is_swap_alert_def)

lemma kinds_mount_alert [simp]:
  "\<not> is_cpu_alert (mount_alert f t e)" "\<not> is_memory_alert (mount_alert f t e)"
  "\<not> is_swap_alert (mount_alert f t e)"
proof -
  show "\<not> is_cpu_alert (mount_alert f t e)"
    by (cases e) (simp_all, simp add: mount_alert_def)
  show "\<not> is_memory_alert (mount_alert f t e)"
    by (cases e) (simp_all, simp add: mount_alert_def)
  show "\<not> is_swap_alert (mount_alert f t e)"
    by (cases e) (simp_all, simp add: mount_alert_def)
qed

lemma is_disk_mount_alert [simp]: "over_threshold t e \<Longrightarrow> is_disk_alert (mount_alert f t e)"
  by (cases e) (simp_all add: mount_alert_def)

lemma filter_disk_mount_alerts [simp]:
  "filter is_disk_alert (map (mount_alert f t) (filter (over_threshold t) ds)) =
   map (mount_alert f t) (filter (over_threshold t) ds)"
  by (induction ds) simp_all

lemma filter_other_mount_alerts [simp]:
  "filter is_cpu_alert (map (mount_alert f t) ds) = []"
  "filter is_memory_alert (map (mount_alert f t) ds) = []"
  "filter is_swap_alert (map (mount_alert f t) ds) = []"
  by (induction ds) simp_all

lemma alerts_triggered_enabled:
  assumes "alerts_enabled cfg"
  shows "\<exists>a1 a2 a3 a4.
    check_cpu f (get_thresholds cfg) m = Inr a1 \<and> check_memory f (get_thresholds cfg) m = Inr a2 \<and>
    check_disk f (get_thresholds cfg) m = Inr a3 \<and> check_swap f (get_thresholds cfg) m = Inr a4 \<and>
    alerts_triggered f cfg m = Inr (a1 @ a2 @ a3 @ a4)"
  using assms
  by (simp add: alerts_triggered_def Let_def check_cpu_eq check_memory_eq check_disk_eq check_swap_eq)

lemma filter_check_cpu:
  "check_cpu f th m = Inr a \<Longrightarrow>
   filter is_memory_alert a = [] \<and> filter is_disk_alert a = [] \<and> filter is_swap_alert a = [] \<and>
   filter is_cpu_alert a = a"
  by (auto simp: check_cpu_eq split: option.splits)

lemma filter_check_memory:
  "check_memory f th m = Inr a \<Longrightarrow>
   filter is_cpu_alert a = [] \<and> filter is_disk_alert a = [] \<and> filter is_swap_alert a = [] \<and>
   filter is_memory_alert a = a"
  by (auto simp: check_memory_eq split: option.splits)

lemma filter_check_swap:
  "check_swap f th m = Inr a \<Longrightarrow>
   filter is_cpu_alert a = [] \<and> filter is_disk_alert a = [] \<and> filter is_memory_alert a = [] \<and>
   filter is_swap_alert a = a"
  by (auto simp: check_swap_eq split: option.splits)

lemma filter_check_disk:
  "check_disk f th m = Inr a \<Longrightarrow>
   filter is_cpu_alert a = [] \<and> filter is_memory_alert a = [] \<and> filter is_swap_alert a = [] \<and>
   filter is_disk_alert a = a"
  by (auto simp: check_disk_eq split: option.splits)

text \<open>The alerts of each family within the whole list.\<close>

lemma alerts_triggered_by_family:
  assumes "alerts_enabled cfg"
  shows "\<exists>msgs. alerts_triggered f cfg m = Inr msgs \<and>
    check_cpu f (get_thresholds cfg) m = Inr (filter is_cpu_alert msgs) \<and>
    check_memory f (get_thresholds cfg) m = Inr (filter is_memory_alert msgs) \<and>
    check_disk f (get_thresholds cfg) m = Inr (filter is_disk_alert msgs) \<and>
    check_swap f (get_thresholds cfg) m = Inr (filter is_swap_alert msgs)"
proof -
  from alerts_triggered_enabled [OF assms, of f m] obtain a1 a2 a3 a4 where
    c: "check_cpu f (get_thresholds cfg) m = Inr a1" and
    me: "check_memory f (get_thresholds cfg) m = Inr a2" and
    d: "check_disk f (get_thresholds cfg) m = Inr a3" and
    s: "check_swap f (get_thresholds cfg) m = Inr a4" and
    all: "alerts_triggered f cfg m = Inr (a1 @ a2 @ a3 @ a4)"
    by blast
  show ?thesis
    using filter_check_cpu [OF c] filter_check_memory [OF me] filter_check_disk [OF d]
      filter_check_swap [OF s] c me d s all
    by simp
qed

lemma test_config_facts [simp]:
  "alerts_enabled test_config"
  "get_thresholds test_config = [''cpu'' \<mapsto> 80, ''memory'' \<mapsto> 85, ''disk'' \<mapsto> 90, ''swap'' \<mapsto> 50]"
  "\<not> alerts_enabled disabled_config"
  "get_thresholds disabled_config = [''cpu'' \<mapsto> 80, ''memory'' \<mapsto> 85, ''disk'' \<mapsto> 90, ''swap'' \<mapsto> 50]"
  by (simp_all add: test_config_def disabled_config_def alerts_enabled_def alerts_section_def
      get_thresholds_def get_or_def)


lemma dict_get_Some: "c k = Some p \<Longrightarrow> dict_get c k d = p"
  by (simp add: dict_get_def)

lemma alerts_triggered_disabled:
  "\<not> alerts_enabled cfg \<Longrightarrow> alerts_triggered f cfg m = Inr []"
  by (simp add: alerts_triggered_def)

section \<open>Properties of the alert routers\<close>

lemma calls_simps [simp]:
  "calls [] = []"
  "calls (Call n # es) = n # calls es"
  "calls (Log l s # es) = calls es"
  "calls (HttpPost u b # es) = calls es"
  "calls (PostMetrics i # es) = calls es"
  "calls (SmtpSend b # es) = calls es"
  "calls (Sleep d # es) = calls es"
  "calls (es @ es') = calls es @ calls es'"
  by (simp_all add: calls_def)

lemma calls_am_dispatch: "calls (fst (am_dispatch f cfg io a channel)) = am_sender channel"
  by (simp add: am_dispatch_def am_sender_def am_send_slack_alert_def am_send_email_alert_def
      am_send_webhook_alert_def am_log_alert_def Let_def split: option.splits)

lemma am_channel_loop_history:
  "alert_history (snd (am_channel_loop f cfg net a i chans acc)) = alert_history (snd acc)"
proof (induction chans arbitrary: i acc)
  case Nil
  show ?case by (cases acc) simp
next
  case (Cons c cs)
  obtain s st where acc: "acc = (s, st)" by (cases acc)
  obtain es r where d: "am_dispatch f cfg (net i) a c = (es, r)" by (cases "am_dispatch f cfg (net i) a c")
  show ?case
    using Cons.IH by (cases r) (simp_all add: acc d am_emit_def)
qed

lemma am_channel_loop_calls:
  "calls (am_effects (snd (am_channel_loop f cfg net a i chans acc))) =
   calls (am_effects (snd acc)) @ concat (map am_sender chans)"
proof (induction chans arbitrary: i acc)
  case Nil
  show ?case by (cases acc) simp
next
  case (Cons c cs)
  obtain s st where acc: "acc = (s, st)" by (cases acc)
  obtain es r where d: "am_dispatch f cfg (net i) a c = (es, r)" by (cases "am_dispatch f cfg (net i) a c")
  have es: "calls es = am_sender c"
    using calls_am_dispatch [of f cfg "net i" a c] d by simp
  show ?case
    using Cons.IH by (cases r) (simp_all add: acc d am_emit_def es)
qed

lemma am_channel_loop_success:
  "fst (am_channel_loop f cfg net a i chans acc) =
   (fst acc \<and> list_all (\<lambda>r. r = None) (am_outcomes f cfg net a i chans))"
proof (induction chans arbitrary: i acc)
  case Nil
  show ?case by (cases acc) simp
next
  case (Cons c cs)
  obtain s st where acc: "acc = (s, st)" by (cases acc)
  obtain es r where d: "am_dispatch f cfg (net i) a c = (es, r)" by (cases "am_dispatch f cfg (net i) a c")
  show ?case
    using Cons.IH by (cases r) (simp_all add: acc d)
qed


lemma mc_senders_state:
  "alert_cooldown (fst (mc_send_slack_alert cfg post message st)) = alert_cooldown st"
  "alert_cooldown (fst (mc_send_email_alert message st)) = alert_cooldown st"
  by (simp_all add: mc_send_slack_alert_def mc_send_email_alert_def emit_def Let_def)

lemma mc_senders_calls:
  "calls (effects (fst (mc_send_slack_alert cfg post message st))) = calls (effects st) @ [''_send_slack_alert'']"
  "calls (effects (fst (mc_send_email_alert message st))) = calls (effects st) @ [''_send_email_alert'']"
  by (simp_all add: mc_send_slack_alert_def mc_send_email_alert_def emit_def Let_def)

lemma mc_senders_alert_records:
  "count_list (effects (fst (mc_send_slack_alert cfg post message st))) (alert_record m) =
   count_list (effects st) (alert_record m)"
  "count_list (effects (fst (mc_send_email_alert message st))) (alert_record m) =
   count_list (effects st) (alert_record m)"
  by (simp_all add: mc_send_slack_alert_def mc_send_email_alert_def emit_def Let_def alert_record_def)

text \<open>One turn of the collector's channel loop, as a function of the state.\<close>

lemma mc_channel_loop_Cons:
  "mc_channel_loop cfg net message i (channel # rest) st =
   mc_channel_loop cfg net message (Suc i) rest
     (if channel = ''slack'' then
        (case snd (mc_send_slack_alert cfg (net i) message st) of
           None \<Rightarrow> fst (mc_send_slack_alert cfg (net i) message st)
         | Some e \<Rightarrow> emit (Log ERROR (''Failed to send alert via '' @ channel))
             (fst (mc_send_slack_alert cfg (net i) message st)))
      else if channel = ''email'' then fst (mc_send_email_alert message st)
      else st)"
  by (simp add: Let_def split_beta mc_send_email_alert_def)

lemma mc_channel_loop_cooldown:
  "alert_cooldown (mc_channel_loop cfg net message i chans st) = alert_cooldown st"
proof (induction chans arbitrary: i st)
  case Nil
  show ?case by simp
next
  case (Cons c cs)
  show ?case
    unfolding mc_channel_loop_Cons Cons.IH
    by (simp add: mc_senders_state emit_def split: option.splits)
qed

lemma mc_sender_simps:
  "mc_sender ''slack'' = [''_send_slack_alert'']"
  "mc_sender ''email'' = [''_send_email_alert'']"
  "c \<noteq> ''slack'' \<Longrightarrow> c \<noteq> ''email'' \<Longrightarrow> mc_sender c = []"
  by (simp_all add: mc_sender_def)

lemma mc_channel_loop_calls:
  "calls (effects (mc_channel_loop cfg net message i chans st)) =
   calls (effects st) @ concat (map mc_sender chans)"
proof (induction chans arbitrary: i st)
  case Nil
  show ?case by simp
next
  case (Cons c cs)
  show ?case
    unfolding mc_channel_loop_Cons Cons.IH
    by (simp add: mc_senders_calls mc_sender_simps emit_def split: option.splits)
qed

lemma count_emit_error:
  "count_list (effects (emit (Log ERROR s) st)) (alert_record m) = count_list (effects st) (alert_record m)"
  by (simp add: emit_def alert_record_def)

lemma mc_channel_loop_alert_records:
  "count_list (effects (mc_channel_loop cfg net message i chans st)) (alert_record m) =
   count_list (effects st) (alert_record m)"
proof (induction chans arbitrary: i st)
  case Nil
  show ?case by simp
next
  case (Cons c cs)
  show ?case
    unfolding mc_channel_loop_Cons Cons.IH
    by (simp add: mc_senders_alert_records count_emit_error split: option.splits)
qed

text \<open>A firing of the collector's router: what it leaves behind.\<close>

lemma alert_record_inject [simp]: "(alert_record a = alert_record b) = (a = b)"
  by (simp add: alert_record_def)

lemma count_alert_record_snoc:
  "count_list (es @ [alert_record message]) (alert_record m) =
   count_list es (alert_record m) + (if m = message then 1 else 0)"
  by auto

lemma mc_send_alert_fires:
  assumes "\<not> mc_in_cooldown h cfg t message st"
  shows "alert_cooldown (mc_send_alert h cfg net t message st) = (alert_cooldown st)(h message \<mapsto> t)"
    and "calls (effects (mc_send_alert h cfg net t message st)) =
         calls (effects st) @ concat (map mc_sender (get_or (channels (alerts_section cfg)) [''log'']))"
    and "count_list (effects (mc_send_alert h cfg net t message st)) (alert_record m) =
         count_list (effects st) (alert_record m) + (if m = message then 1 else 0)"
proof -
  have eq: "mc_send_alert h cfg net t message st =
      mc_channel_loop cfg net message 0 (get_or (channels (alerts_section cfg)) [''log''])
        (st\<lparr>alert_cooldown := (alert_cooldown st)(h message \<mapsto> t),
            effects := effects st @ [alert_record message]\<rparr>)"
    using assms by (simp add: mc_send_alert_def Let_def emit_def alert_record_def)
  show "alert_cooldown (mc_send_alert h cfg net t message st) = (alert_cooldown st)(h message \<mapsto> t)"
    by (simp add: eq mc_channel_loop_cooldown)
  show "calls (effects (mc_send_alert h cfg net t message st)) =
         calls (effects st) @ concat (map mc_sender (get_or (channels (alerts_section cfg)) [''log'']))"
    by (simp add: eq mc_channel_loop_calls alert_record_def)
  show "count_list (effects (mc_send_alert h cfg net t message st)) (alert_record m) =
         count_list (effects st) (alert_record m) + (if m = message then 1 else 0)"
    by (simp only: eq mc_channel_loop_alert_records) (simp add: count_alert_record_snoc)
qed

lemma mc_send_alert_suppressed:
  "mc_in_cooldown h cfg t message st \<Longrightarrow> mc_send_alert h cfg net t message st = st"
  by (simp add: mc_send_alert_def)

lemma am_send_alert_fires:
  assumes "\<not> am_is_in_cooldown cfg (check_time clk) alert_type hostname st"
  shows "alert_history (snd (am_send_alert f cfg net clk alert_type message hostname val threshold severity st)) =
         (alert_history st)(am_key hostname alert_type \<mapsto> update_time clk)"
    and "calls (am_effects (snd (am_send_alert f cfg net clk alert_type message hostname val threshold severity st))) =
         calls (am_effects st) @ concat (map am_sender (get_or (am_channels cfg) [''log'']))"
  using assms
  by (simp_all add: am_send_alert_def Let_def am_channel_loop_history am_channel_loop_calls
      am_update_alert_history_def)

lemma am_send_alert_suppressed:
  assumes "am_is_in_cooldown cfg (check_time clk) alert_type hostname st"
  shows "fst (am_send_alert f cfg net clk alert_type message hostname val threshold severity st) = False"
    and "alert_history (snd (am_send_alert f cfg net clk alert_type message hostname val threshold severity st)) =
         alert_history st"
    and "calls (am_effects (snd (am_send_alert f cfg net clk alert_type message hostname val threshold severity st))) =
         calls (am_effects st)"
  using assms by (simp_all add: am_send_alert_def am_emit_def)

lemma mc_in_cooldown_after_firing:
  assumes "\<not> mc_in_cooldown h cfg t1 message st"
  shows "mc_in_cooldown h cfg t2 message (mc_send_alert h cfg net t1 message st) =
         ((t2 - t1) / 60 < get_or (cooldown_minutes (alerts_section cfg)) 5)"
  by (simp add: mc_in_cooldown_def mc_send_alert_fires(1) [OF assms])

lemma am_in_cooldown_after_firing:
  assumes "\<not> am_is_in_cooldown cfg (check_time c1) alert_type hostname st"
  shows "am_is_in_cooldown cfg t2 alert_type hostname
           (snd (am_send_alert f cfg net c1 alert_type message hostname val threshold severity st)) =
         (t2 - update_time c1 < get_or (am_cooldown_minutes cfg) 5 * 60)"
  by (simp add: am_is_in_cooldown_def am_send_alert_fires(1) [OF assms])

lemma cpu_message_rendered:
  "format_1f f 85 = ''85.0'' \<Longrightarrow> format_1f f 86 = ''86.0'' \<Longrightarrow> str_number f 80 = ''80'' \<Longrightarrow>
   cpu_message f 85 80 = cpu_alert_85 \<and> cpu_message f 86 80 = cpu_alert_86"
  by (simp add: cpu_message_def cpu_alert_85_def cpu_alert_86_def)

lemma test_config_router [simp]:
  "get_or (cooldown_minutes (alerts_section test_config)) 5 = 5"
  "get_or (channels (alerts_section test_config)) [''log''] = [''log'']"
  by (simp_all add: test_config_def alerts_section_def get_or_def)

lemma am_defaults_router [simp]:
  "get_or (am_cooldown_minutes am_defaults) 5 = 5"
  "get_or (am_channels am_defaults) [''log''] = [''log'']"
  by (simp_all add: am_defaults_def get_or_def)

lemma am_send_alert_success:
  assumes "\<not> am_is_in_cooldown cfg (check_time clk) alert_type hostname st"
  shows "fst (am_send_alert f cfg net clk alert_type message hostname val threshold severity st) =
         list_all (\<lambda>r. r = None)
           (am_outcomes f cfg net
              \<lparr>ad_timestamp = data_time clk, ad_hostname = hostname, ad_alert_type = alert_type,
               ad_message = message, ad_value = val, ad_threshold = threshold, ad_severity = severity\<rparr>
              0 (get_or (am_channels cfg) [''log'']))"
  using assms by (simp add: am_send_alert_def Let_def am_channel_loop_success)

section \<open>Properties of the delivery client\<close>

lemma posts_simps [simp]:
  "posts [] = []"
  "posts (PostMetrics i # es) = i # posts es"
  "posts (Log l s # es) = posts es"
  "posts (Call n # es) = posts es"
  "posts (HttpPost u b # es) = posts es"
  "posts (SmtpSend b # es) = posts es"
  "posts (Sleep d # es) = posts es"
  "posts (es @ es') = posts es @ posts es'"
  by (simp_all add: posts_def)

lemma posts_emit:
  "posts (effects (emit e st)) = posts (effects st) @ posts [e]"
  by (simp add: emit_def)









lemma time_sleep_posts:
  "posts (effects (fst (time_sleep secs st))) = posts (effects st)"
  by (simp add: time_sleep_def posts_emit)











lemma test_config_retries [simp]:
  "get_or (max_retries (endpoint_section test_config)) (PyInt 3) = PyInt 3"
  "get_or (retry_delay (endpoint_section test_config)) 5 = 1"
  by (simp_all add: test_config_def endpoint_section_def get_or_def)


lemma test_config_interval [simp]: "interval_seconds test_config = 30"
  by (simp add: test_config_def)




section \<open>Properties of the ingestion service\<close>

lemma store_body_failure:
  "snd (store_body env codec payload conn) = Inl e \<Longrightarrow>
   db (fst (store_body env codec payload conn)) = db conn"
  by (auto simp: store_body_def execute_insert_def commit_def
      split: sum.splits option.splits)

lemma store_body_raises_iff:
  "isl (snd (store_body env codec payload conn)) =
   (serialisation_fails codec payload \<or> execute_outcome env \<noteq> None \<or> commit_outcome env \<noteq> None)"
  by (auto simp: store_body_def execute_insert_def commit_def serialisation_fails_def
      split: sum.splits option.splits)

lemma store_body_success:
  assumes "snd (store_body env codec payload conn) = Inr v"
  shows "v = True"
    and "\<exists>disk_data network_data raw_data.
           fst (store_body env codec payload conn) =
             \<lparr>db = \<lparr>rows = rows (db conn) @ pending conn @
                       [(row_values payload disk_data network_data raw_data)
                          \<lparr>r_id := last_id (db conn) + length (pending conn) + 1,
                           r_created_at := current_timestamp env\<rparr>],
                     last_id = last_id (db conn) + length (pending conn) + 1\<rparr>,
              pending = []\<rparr>"
  using assms
  by (auto simp: store_body_def execute_insert_def commit_def
      split: sum.splits option.splits)


lemma store_metrics_cases:
  "store_metrics env codec d payload =
     (if connect_outcome env \<noteq> None then (d, False)
      else (case store_body env codec payload \<lparr>db = d, pending = []\<rparr> of
              (conn', Inl e) \<Rightarrow> (db conn', False)
            | (conn', Inr ok) \<Rightarrow> (db conn', ok)))"
  by (auto simp: store_metrics_def get_connection_def connect_def close_def rollback_def
      split: option.splits sum.splits prod.splits)

lemma store_metrics_failure:
  assumes "\<not> snd (store_metrics env codec d payload)"
  shows "fst (store_metrics env codec d payload) = d"
proof (cases "connect_outcome env")
  case (Some e)
  then show ?thesis by (simp add: store_metrics_cases)
next
  case None
  obtain conn' res where b: "store_body env codec payload \<lparr>db = d, pending = []\<rparr> = (conn', res)"
    by (cases "store_body env codec payload \<lparr>db = d, pending = []\<rparr>")
  show ?thesis
  proof (cases res)
    case (Inl e)
    then show ?thesis
      using store_body_failure [of env codec payload "\<lparr>db = d, pending = []\<rparr>" e] b None
      by (simp add: store_metrics_cases)
  next
    case (Inr v)
    then show ?thesis
      using store_body_success(1) [of env codec payload "\<lparr>db = d, pending = []\<rparr>" v] b None assms
      by (simp add: store_metrics_cases)
  qed
qed

lemma ingest_metrics_cases:
  "ingest_metrics env codec d body =
     (if snd (store_metrics env codec d body)
      then (fst (store_metrics env codec d body), Inr 200)
      else (fst (store_metrics env codec d body), Inl (HTTPException 400)))"
  by (cases "store_metrics env codec d body")
    (auto simp: ingest_metrics_def ingest_try_body_def split: bool.splits)

lemma test_payload_valid: "validate_payload only_test_time test_payload"
  by (simp add: validate_payload_def validate_system_def validate_timestamp_def replace_Z_def
      validate_cpu_def validate_memory_def validate_swap_def validate_disk_def percent_ok_def
      given_ge0_def only_test_time_def test_payload_def)

section \<open>The claims\<close>

text \<open>
  Claim C1, as amended. The alert manager keys its cooldown by hostname and alert type
  (\<^verbatim>\<open>f"{hostname}:{alert_type}"\<close>); the collector keys it by
  \<^verbatim>\<open>hash(message)\<close>, the rendered text of the alert, which holds the observed value.
  In both, after a firing at time \<open>t\<close>, a send under the same key less than the cooldown
  after \<open>t\<close> is suppressed (the alert manager returns false, calls no sender and keeps
  its history; the collector returns its state as it was), and a send at or after the
  end of the window fires again: two deliveries in the alert manager, two alert records
  in the collector's log.
\<close>

theorem cooldown_by_key:
  "(\<not> am_is_in_cooldown cfg (check_time c1) alert_type hostname st \<and>
    check_time c2 - update_time c1 < get_or (am_cooldown_minutes cfg) 5 * 60 \<and>
    check_time c3 - update_time c1 \<ge> get_or (am_cooldown_minutes cfg) 5 * 60 \<longrightarrow>
    (let s1 = snd (am_send_alert f cfg net1 c1 alert_type msg1 hostname v1 th1 sev1 st);
         r2 = am_send_alert f cfg net2 c2 alert_type msg2 hostname v2 th2 sev2 s1;
         r3 = am_send_alert f cfg net3 c3 alert_type msg3 hostname v3 th3 sev3 (snd r2);
         senders = concat (map am_sender (get_or (am_channels cfg) [''log'']))
     in calls (am_effects s1) = calls (am_effects st) @ senders \<and>
        fst r2 = False \<and>
        alert_history (snd r2) = alert_history s1 \<and>
        calls (am_effects (snd r2)) = calls (am_effects s1) \<and>
        calls (am_effects (snd r3)) = calls (am_effects st) @ senders @ senders \<and>
        alert_history (snd r3) (am_key hostname alert_type) = Some (update_time c3))) \<and>
   (\<not> mc_in_cooldown h ccfg t1 message cst \<and>
    (t2 - t1) / 60 < get_or (cooldown_minutes (alerts_section ccfg)) 5 \<and>
    (t3 - t1) / 60 \<ge> get_or (cooldown_minutes (alerts_section ccfg)) 5 \<longrightarrow>
    (let s1 = mc_send_alert h ccfg n1 t1 message cst;
         s2 = mc_send_alert h ccfg n2 t2 message s1;
         s3 = mc_send_alert h ccfg n3 t3 message s2
     in count_list (effects s1) (alert_record message) = count_list (effects cst) (alert_record message) + 1 \<and>
        s2 = s1 \<and>
        count_list (effects s3) (alert_record message) = count_list (effects cst) (alert_record message) + 2 \<and>
        alert_cooldown s3 (h message) = Some t3))"
proof (intro conjI impI)
  assume a: "\<not> am_is_in_cooldown cfg (check_time c1) alert_type hostname st \<and>
    check_time c2 - update_time c1 < get_or (am_cooldown_minutes cfg) 5 * 60 \<and>
    check_time c3 - update_time c1 \<ge> get_or (am_cooldown_minutes cfg) 5 * 60"
  define s1 where "s1 = snd (am_send_alert f cfg net1 c1 alert_type msg1 hostname v1 th1 sev1 st)"
  define r2 where "r2 = am_send_alert f cfg net2 c2 alert_type msg2 hostname v2 th2 sev2 s1"
  define r3 where "r3 = am_send_alert f cfg net3 c3 alert_type msg3 hostname v3 th3 sev3 (snd r2)"
  define senders where "senders = concat (map am_sender (get_or (am_channels cfg) [''log'']))"
  from a have first: "\<not> am_is_in_cooldown cfg (check_time c1) alert_type hostname st" by simp
  have in2: "am_is_in_cooldown cfg (check_time c2) alert_type hostname s1"
    unfolding s1_def using a by (simp add: am_in_cooldown_after_firing [OF first])
  have out3: "\<not> am_is_in_cooldown cfg (check_time c3) alert_type hostname s1"
    unfolding s1_def using a by (simp add: am_in_cooldown_after_firing [OF first])
  have e1: "calls (am_effects s1) = calls (am_effects st) @ senders"
    unfolding s1_def senders_def by (rule am_send_alert_fires(2) [OF first])
  have r2: "fst r2 = False" "alert_history (snd r2) = alert_history s1"
    "calls (am_effects (snd r2)) = calls (am_effects s1)"
    unfolding r2_def by (rule am_send_alert_suppressed [OF in2])+
  have out3': "\<not> am_is_in_cooldown cfg (check_time c3) alert_type hostname (snd r2)"
    using out3 by (simp add: am_is_in_cooldown_def r2(2))
  have r3: "calls (am_effects (snd r3)) = calls (am_effects (snd r2)) @ senders"
    "alert_history (snd r3) = (alert_history (snd r2))(am_key hostname alert_type \<mapsto> update_time c3)"
    unfolding r3_def senders_def
    by (rule am_send_alert_fires(2) [OF out3'], rule am_send_alert_fires(1) [OF out3'])
  have "calls (am_effects s1) = calls (am_effects st) @ senders \<and>
        fst r2 = False \<and>
        alert_history (snd r2) = alert_history s1 \<and>
        calls (am_effects (snd r2)) = calls (am_effects s1) \<and>
        calls (am_effects (snd r3)) = calls (am_effects st) @ senders @ senders \<and>
        alert_history (snd r3) (am_key hostname alert_type) = Some (update_time c3)"
    using e1 r2 r3 by simp
  then show "let s1 = snd (am_send_alert f cfg net1 c1 alert_type msg1 hostname v1 th1 sev1 st);
         r2 = am_send_alert f cfg net2 c2 alert_type msg2 hostname v2 th2 sev2 s1;
         r3 = am_send_alert f cfg net3 c3 alert_type msg3 hostname v3 th3 sev3 (snd r2);
         senders = concat (map am_sender (get_or (am_channels cfg) [''log'']))
     in calls (am_effects s1) = calls (am_effects st) @ senders \<and>
        fst r2 = False \<and>
        alert_history (snd r2) = alert_history s1 \<and>
        calls (am_effects (snd r2)) = calls (am_effects s1) \<and>
        calls (am_effects (snd r3)) = calls (am_effects st) @ senders @ senders \<and>
        alert_history (snd r3) (am_key hostname alert_type) = Some (update_time c3)"
    unfolding Let_def s1_def r2_def r3_def senders_def .
next
  assume a: "\<not> mc_in_cooldown h ccfg t1 message cst \<and>
    (t2 - t1) / 60 < get_or (cooldown_minutes (alerts_section ccfg)) 5 \<and>
    (t3 - t1) / 60 \<ge> get_or (cooldown_minutes (alerts_section ccfg)) 5"
  define s1 where "s1 = mc_send_alert h ccfg n1 t1 message cst"
  define s2 where "s2 = mc_send_alert h ccfg n2 t2 message s1"
  define s3 where "s3 = mc_send_alert h ccfg n3 t3 message s2"
  from a have first: "\<not> mc_in_cooldown h ccfg t1 message cst" by simp
  have in2: "mc_in_cooldown h ccfg t2 message s1"
    unfolding s1_def using a by (simp add: mc_in_cooldown_after_firing [OF first])
  have out3: "\<not> mc_in_cooldown h ccfg t3 message s1"
    unfolding s1_def using a by (simp add: mc_in_cooldown_after_firing [OF first])
  have c1: "count_list (effects s1) (alert_record message) = count_list (effects cst) (alert_record message) + 1"
    unfolding s1_def by (simp add: mc_send_alert_fires(3) [OF first])
  have s21: "s2 = s1"
    unfolding s2_def by (rule mc_send_alert_suppressed [OF in2])
  have c3: "count_list (effects s3) (alert_record message) = count_list (effects s1) (alert_record message) + 1"
    "alert_cooldown s3 (h message) = Some t3"
    unfolding s3_def s21 by (simp_all add: mc_send_alert_fires [OF out3])
  have "count_list (effects s1) (alert_record message) = count_list (effects cst) (alert_record message) + 1 \<and>
        s2 = s1 \<and>
        count_list (effects s3) (alert_record message) = count_list (effects cst) (alert_record message) + 2 \<and>
        alert_cooldown s3 (h message) = Some t3"
    using c1 s21 c3 by simp
  then show "let s1 = mc_send_alert h ccfg n1 t1 message cst;
         s2 = mc_send_alert h ccfg n2 t2 message s1;
         s3 = mc_send_alert h ccfg n3 t3 message s2
     in count_list (effects s1) (alert_record message) = count_list (effects cst) (alert_record message) + 1 \<and>
        s2 = s1 \<and>
        count_list (effects s3) (alert_record message) = count_list (effects cst) (alert_record message) + 2 \<and>
        alert_cooldown s3 (h message) = Some t3"
    unfolding Let_def s1_def s2_def s3_def .
qed

theorem cooldown_by_key_witness:
  "\<forall>f net.
     (let s1 = snd (am_send_alert f am_defaults net (clock_at 0) ''cpu_high'' ''CPU usage is critically high''
                 ''test-server'' (Some 95.5) (Some 80) ''critical'' am_fresh);
          r2 = am_send_alert f am_defaults net (clock_at 60) ''cpu_high'' ''CPU usage is critically high''
                 ''test-server'' (Some 96) (Some 80) ''critical'' s1;
          r3 = am_send_alert f am_defaults net (clock_at 300) ''cpu_high'' ''CPU usage is critically high''
                 ''test-server'' (Some 97) (Some 80) ''critical'' (snd r2)
      in fst r2 = False \<and> calls (am_effects (snd r2)) = [''_log_alert''] \<and>
         calls (am_effects (snd r3)) = [''_log_alert'', ''_log_alert'']) \<and>
     (let s1 = mc_send_alert (\<lambda>m. m) test_config net 0 cpu_alert_85 mc_fresh;
          s2 = mc_send_alert (\<lambda>m. m) test_config net 60 cpu_alert_85 s1;
          s3 = mc_send_alert (\<lambda>m. m) test_config net 300 cpu_alert_85 s2
      in count_list (effects s2) (alert_record cpu_alert_85) = 1 \<and>
         count_list (effects s3) (alert_record cpu_alert_85) = 2)"
proof (intro allI)
  fix f :: formats and net :: "nat \<Rightarrow> py_exception option"
  have am0: "\<not> am_is_in_cooldown am_defaults (check_time (clock_at 0)) ''cpu_high'' ''test-server'' am_fresh"
    by (simp add: am_is_in_cooldown_def am_fresh_def)
  have mc0: "\<not> mc_in_cooldown (\<lambda>m. m) test_config 0 cpu_alert_85 mc_fresh"
    by (simp add: mc_in_cooldown_def mc_fresh_def)
  have t: "check_time (clock_at 60) - update_time (clock_at 0) < get_or (am_cooldown_minutes am_defaults) 5 * 60"
    "check_time (clock_at 300) - update_time (clock_at 0) \<ge> get_or (am_cooldown_minutes am_defaults) 5 * 60"
    "((60::real) - 0) / 60 < get_or (cooldown_minutes (alerts_section test_config)) 5"
    "((300::real) - 0) / 60 \<ge> get_or (cooldown_minutes (alerts_section test_config)) 5"
    by (simp_all add: clock_at_def)
  have e: "calls (am_effects am_fresh) = []" "count_list (effects mc_fresh) (alert_record cpu_alert_85) = 0"
    by (simp_all add: am_fresh_def mc_fresh_def)
  show "(let s1 = snd (am_send_alert f am_defaults net (clock_at 0) ''cpu_high'' ''CPU usage is critically high''
                 ''test-server'' (Some 95.5) (Some 80) ''critical'' am_fresh);
          r2 = am_send_alert f am_defaults net (clock_at 60) ''cpu_high'' ''CPU usage is critically high''
                 ''test-server'' (Some 96) (Some 80) ''critical'' s1;
          r3 = am_send_alert f am_defaults net (clock_at 300) ''cpu_high'' ''CPU usage is critically high''
                 ''test-server'' (Some 97) (Some 80) ''critical'' (snd r2)
      in fst r2 = False \<and> calls (am_effects (snd r2)) = [''_log_alert''] \<and>
         calls (am_effects (snd r3)) = [''_log_alert'', ''_log_alert'']) \<and>
     (let s1 = mc_send_alert (\<lambda>m. m) test_config net 0 cpu_alert_85 mc_fresh;
          s2 = mc_send_alert (\<lambda>m. m) test_config net 60 cpu_alert_85 s1;
          s3 = mc_send_alert (\<lambda>m. m) test_config net 300 cpu_alert_85 s2
      in count_list (effects s2) (alert_record cpu_alert_85) = 1 \<and>
         count_list (effects s3) (alert_record cpu_alert_85) = 2)"
    using cooldown_by_key [where cfg = am_defaults and ?c1.0 = "clock_at 0" and ?c2.0 = "clock_at 60"
        and ?c3.0 = "clock_at 300" and alert_type = "''cpu_high''" and hostname = "''test-server''"
        and st = am_fresh and f = f and ?net1.0 = net and ?net2.0 = net and ?net3.0 = net
        and ?msg1.0 = "''CPU usage is critically high''" and ?msg2.0 = "''CPU usage is critically high''"
        and ?msg3.0 = "''CPU usage is critically high''"
        and ?v1.0 = "Some 95.5" and ?v2.0 = "Some 96" and ?v3.0 = "Some 97"
        and ?th1.0 = "Some 80" and ?th2.0 = "Some 80" and ?th3.0 = "Some 80"
        and ?sev1.0 = "''critical''" and ?sev2.0 = "''critical''" and ?sev3.0 = "''critical''"
        and h = "\<lambda>m. m" and ccfg = test_config and ?t1.0 = 0 and ?t2.0 = 60 and ?t3.0 = 300
        and message = cpu_alert_85 and cst = mc_fresh and ?n1.0 = net and ?n2.0 = net and ?n3.0 = net]
      am0 mc0 t e
    by (auto simp add: Let_def am_sender_def)
qed

text \<open>
  Claim C1 as stated fails in the collector: two CPU alerts of one host, raised one
  minute apart with five minutes of cooldown, are both logged, because the observed
  value (85.0, then 86.0) is part of the message and so of the key.
\<close>

theorem same_type_alerts_both_logged:
  "\<forall>net1 net2. is_cpu_alert cpu_alert_85 \<and> is_cpu_alert cpu_alert_86 \<and>
     ((60::real) - 0) / 60 < get_or (cooldown_minutes (alerts_section test_config)) 5 \<and>
     effects (mc_send_alert (\<lambda>m. m) test_config net2 60 cpu_alert_86
               (mc_send_alert (\<lambda>m. m) test_config net1 0 cpu_alert_85 mc_fresh)) =
       [alert_record cpu_alert_85, alert_record cpu_alert_86]"
  by (simp add: is_cpu_alert_def cpu_alert_85_def cpu_alert_86_def mc_send_alert_def
      mc_in_cooldown_def mc_fresh_def emit_def alert_record_def Let_def)




text \<open>
  Claim C3. For every database and payload, \<^verbatim>\<open>store_metrics\<close> returns false exactly
  when a serialisation raises or connecting, inserting or committing raises; then the
  database is what it was before the call (the rows and the identifier counter alike:
  the insert of a transaction that was not committed is rolled back). When it returns
  true the rows are the former rows followed by exactly one new row, which carries the
  scalar fields of the payload and the next identifier.
\<close>

theorem store_is_all_or_nothing:
  "let r = store_metrics env codec d payload in
     snd r = (\<not> serialisation_fails codec payload \<and> \<not> write_fails env) \<and>
     (\<not> snd r \<longrightarrow> fst r = d) \<and>
     (snd r \<longrightarrow>
        (\<exists>row. rows (fst r) = rows d @ [row] \<and>
           r_id row = last_id d + 1 \<and>
           r_timestamp row = sy_timestamp (mp_metrics payload) \<and>
           r_hostname row = mp_hostname payload \<and>
           r_cpu_percent row = cm_percent (sy_cpu (mp_metrics payload)) \<and>
           r_memory_percent row = mm_percent (sy_memory (mp_metrics payload)) \<and>
           r_memory_total row = mm_total (sy_memory (mp_metrics payload)) \<and>
           r_memory_used row = mm_used (sy_memory (mp_metrics payload)) \<and>
           r_swap_percent row = sm_percent (sy_swap (mp_metrics payload))))"
proof (cases "connect_outcome env")
  case (Some e)
  then show ?thesis
    by (simp add: store_metrics_cases write_fails_def)
next
  case None
  define c0 where "c0 = \<lparr>db = d, pending = []\<rparr>"
  obtain conn' res where b: "store_body env codec payload c0 = (conn', res)"
    by (cases "store_body env codec payload c0")
  show ?thesis
  proof (cases res)
    case (Inl e)
    have "db conn' = d"
      using store_body_failure [of env codec payload c0 e] b Inl by (simp add: c0_def)
    moreover have "serialisation_fails codec payload \<or> execute_outcome env \<noteq> None \<or> commit_outcome env \<noteq> None"
      using store_body_raises_iff [of env codec payload c0] b Inl by simp
    ultimately show ?thesis
      using None b Inl by (auto simp: store_metrics_cases c0_def [symmetric] write_fails_def)
  next
    case (Inr v)
    have v: "v = True"
      using store_body_success(1) [of env codec payload c0 v] b Inr by simp
    from store_body_success(2) [of env codec payload c0 v] b Inr
    obtain disk_data network_data raw_data where
      c: "conn' = \<lparr>db = \<lparr>rows = rows d @
                       [(row_values payload disk_data network_data raw_data)
                          \<lparr>r_id := last_id d + 1, r_created_at := current_timestamp env\<rparr>],
                     last_id = last_id d + 1\<rparr>,
              pending = []\<rparr>"
      by (auto simp: c0_def)
    have ok: "\<not> (serialisation_fails codec payload \<or> execute_outcome env \<noteq> None \<or> commit_outcome env \<noteq> None)"
      using store_body_raises_iff [of env codec payload c0] b Inr by simp
    have r: "store_metrics env codec d payload = (db conn', True)"
      using None b Inr v by (simp add: store_metrics_cases c0_def [symmetric])
    show ?thesis
      unfolding Let_def r using ok None
      by (simp add: c write_fails_def row_values_def)
  qed
qed

theorem store_is_all_or_nothing_witness:
  "store_metrics commit_fails plain_codec one_row_db test_payload = (one_row_db, False) \<and>
   snd (store_metrics db_works plain_codec one_row_db test_payload) = True \<and>
   length (rows (fst (store_metrics db_works plain_codec one_row_db test_payload))) = 2 \<and>
   take 1 (rows (fst (store_metrics db_works plain_codec one_row_db test_payload))) = rows one_row_db"
proof -
  have f: "write_fails commit_fails" "\<not> write_fails db_works"
    "\<not> serialisation_fails plain_codec test_payload"
    by (simp_all add: write_fails_def commit_fails_def db_works_def serialisation_fails_def
        plain_codec_def test_payload_def)
  have l: "length (rows one_row_db) = 1"
    by (simp add: one_row_db_def)
  have 1: "store_metrics commit_fails plain_codec one_row_db test_payload = (one_row_db, False)"
    using store_is_all_or_nothing [of commit_fails plain_codec one_row_db test_payload] f
    unfolding Let_def by (cases "store_metrics commit_fails plain_codec one_row_db test_payload") auto
  have 2: "snd (store_metrics db_works plain_codec one_row_db test_payload) = True \<and>
    length (rows (fst (store_metrics db_works plain_codec one_row_db test_payload))) = 2 \<and>
    take 1 (rows (fst (store_metrics db_works plain_codec one_row_db test_payload))) = rows one_row_db"
    using store_is_all_or_nothing [of db_works plain_codec one_row_db test_payload] f l
    unfolding Let_def by auto
  from 1 2 show ?thesis by blast
qed

text \<open>
  Claim C4, as amended. \<^verbatim>\<open>check_alerts\<close> returns at once when
  \<^verbatim>\<open>alerts.enabled\<close> is false. With alerting enabled, for all thresholds and
  snapshots in which a family, its \<^verbatim>\<open>percent\<close> and its threshold are present: the
  evaluator triggers the family's alert exactly when the percent is strictly above the
  threshold (one message then, none at equality or below). For the disk family, some
  disk alert is triggered exactly when some mount is over the disk threshold.
\<close>

theorem enabled_evaluator_fires_iff_above:
  assumes "alerts_enabled cfg"
  shows "\<exists>msgs. alerts_triggered f cfg m = Inr msgs \<and>
     (\<forall>t c p. get_thresholds cfg ''cpu'' = Some t \<and> cpu m = Some c \<and> c ''percent'' = Some p \<longrightarrow>
        filter is_cpu_alert msgs = (if p > t then [cpu_message f p t] else [])) \<and>
     (\<forall>t c p. get_thresholds cfg ''memory'' = Some t \<and> memory m = Some c \<and> c ''percent'' = Some p \<longrightarrow>
        filter is_memory_alert msgs = (if p > t then [memory_message f p t] else [])) \<and>
     (\<forall>t c p. get_thresholds cfg ''swap'' = Some t \<and> swap m = Some c \<and> c ''percent'' = Some p \<longrightarrow>
        filter is_swap_alert msgs = (if p > t then [swap_message f p t] else [])) \<and>
     (\<forall>t ds. get_thresholds cfg ''disk'' = Some t \<and> disk m = Some ds \<longrightarrow>
        (filter is_disk_alert msgs \<noteq> []) = list_ex (over_threshold t) ds)"
proof -
  from alerts_triggered_by_family [OF assms, of f m] obtain msgs where
    all: "alerts_triggered f cfg m = Inr msgs" and
    c: "check_cpu f (get_thresholds cfg) m = Inr (filter is_cpu_alert msgs)" and
    me: "check_memory f (get_thresholds cfg) m = Inr (filter is_memory_alert msgs)" and
    d: "check_disk f (get_thresholds cfg) m = Inr (filter is_disk_alert msgs)" and
    s: "check_swap f (get_thresholds cfg) m = Inr (filter is_swap_alert msgs)"
    by blast
  have "filter is_cpu_alert msgs = (if p > t then [cpu_message f p t] else [])"
    if "get_thresholds cfg ''cpu'' = Some t" "cpu m = Some c" "c ''percent'' = Some p" for t c p
    using that c by (auto simp: check_cpu_eq dict_get_Some)
  moreover have "filter is_memory_alert msgs = (if p > t then [memory_message f p t] else [])"
    if "get_thresholds cfg ''memory'' = Some t" "memory m = Some c" "c ''percent'' = Some p" for t c p
    using that me by (auto simp: check_memory_eq dict_get_Some)
  moreover have "filter is_swap_alert msgs = (if p > t then [swap_message f p t] else [])"
    if "get_thresholds cfg ''swap'' = Some t" "swap m = Some c" "c ''percent'' = Some p" for t c p
    using that s by (auto simp: check_swap_eq dict_get_Some)
  moreover have "(filter is_disk_alert msgs \<noteq> []) = list_ex (over_threshold t) ds"
    if "get_thresholds cfg ''disk'' = Some t" "disk m = Some ds" for t ds
  proof -
    have "filter is_disk_alert msgs = map (mount_alert f t) (filter (over_threshold t) ds)"
      using that d by (simp add: check_disk_eq)
    then show ?thesis
      by (simp add: list_ex_iff filter_empty_conv)
  qed
  ultimately show ?thesis using all by blast
qed

theorem enabled_evaluator_fires_iff_above_witness:
  "\<forall>f. alerts_enabled test_config \<and>
     (\<exists>msgs. alerts_triggered f test_config hot_cpu = Inr msgs \<and>
        filter is_cpu_alert msgs = [cpu_message f 85 80]) \<and>
     (\<exists>msgs. alerts_triggered f test_config cpu_at_threshold = Inr msgs \<and>
        filter is_cpu_alert msgs = [])"
proof
  fix f
  have h: "cpu hot_cpu = Some [''percent'' \<mapsto> 85]"
    by (simp add: hot_cpu_def no_metrics_def)
  have e: "cpu cpu_at_threshold = Some [''percent'' \<mapsto> 80]"
    by (simp add: cpu_at_threshold_def no_metrics_def)
  have en: "alerts_enabled test_config" by simp
  from enabled_evaluator_fires_iff_above [OF en, of f hot_cpu] h
  have 1: "\<exists>msgs. alerts_triggered f test_config hot_cpu = Inr msgs \<and>
        filter is_cpu_alert msgs = [cpu_message f 85 80]"
    by auto
  from enabled_evaluator_fires_iff_above [OF en, of f cpu_at_threshold] e
  have 2: "\<exists>msgs. alerts_triggered f test_config cpu_at_threshold = Inr msgs \<and>
        filter is_cpu_alert msgs = []"
    by auto
  from en 1 2 show "alerts_enabled test_config \<and>
     (\<exists>msgs. alerts_triggered f test_config hot_cpu = Inr msgs \<and>
        filter is_cpu_alert msgs = [cpu_message f 85 80]) \<and>
     (\<exists>msgs. alerts_triggered f test_config cpu_at_threshold = Inr msgs \<and>
        filter is_cpu_alert msgs = [])"
    by blast
qed

text \<open>
  Claim C4 as stated fails: with \<^verbatim>\<open>alerts.enabled\<close> false, a CPU at 85 percent
  against a threshold of 80 triggers nothing.
\<close>

theorem disabled_evaluator_counterexample:
  "\<forall>f. get_thresholds disabled_config ''cpu'' = Some 80 \<and>
       cpu hot_cpu = Some [''percent'' \<mapsto> 85] \<and> (85::real) > 80 \<and>
       alerts_triggered f disabled_config hot_cpu = Inr []"
  by (simp add: alerts_triggered_def hot_cpu_def no_metrics_def)

text \<open>
  Claim C5, as amended. With alerting enabled and a disk threshold configured, the disk
  alerts of the evaluator are, in mount order, exactly one message for every mount whose
  percent is above the threshold; mounts at or below it, entries without a
  \<^verbatim>\<open>percent\<close> and entries that are no dictionaries contribute none. The witness is
  the snapshot with one mount over and one under the threshold: one disk alert, for the
  mount that is over.
\<close>

theorem one_alert_per_mount_over_threshold:
  assumes "alerts_enabled cfg"
    and "get_thresholds cfg ''disk'' = Some t"
    and "disk m = Some ds"
  shows "\<exists>msgs. alerts_triggered f cfg m = Inr msgs \<and>
     filter is_disk_alert msgs = map (mount_alert f t) (filter (over_threshold t) ds) \<and>
     length (filter is_disk_alert msgs) = length (filter (over_threshold t) ds)"
proof -
  from alerts_triggered_by_family [OF assms(1), of f m] obtain msgs where
    all: "alerts_triggered f cfg m = Inr msgs" and
    d: "check_disk f (get_thresholds cfg) m = Inr (filter is_disk_alert msgs)"
    by blast
  have "filter is_disk_alert msgs = map (mount_alert f t) (filter (over_threshold t) ds)"
    using assms(2,3) d by (simp add: check_disk_eq)
  with all show ?thesis by simp
qed

theorem one_alert_per_mount_over_threshold_witness:
  "\<forall>f. alerts_enabled test_config \<and> get_thresholds test_config ''disk'' = Some 90 \<and>
     (\<exists>msgs. alerts_triggered f test_config two_mounts = Inr msgs \<and>
        filter is_disk_alert msgs =
          [disk_message f \<lparr>d_percent = Some 95, d_mountpoint = Some ''/''\<rparr> 95 90])"
proof
  fix f
  have d: "disk two_mounts = Some
     [DiskDict \<lparr>d_percent = Some 95, d_mountpoint = Some ''/''\<rparr>,
      DiskDict \<lparr>d_percent = Some 50, d_mountpoint = Some ''/home''\<rparr>]"
    by (simp add: two_mounts_def no_metrics_def)
  have en: "alerts_enabled test_config" and t: "get_thresholds test_config ''disk'' = Some 90"
    by simp_all
  from one_alert_per_mount_over_threshold [OF en t d, of f]
  have "\<exists>msgs. alerts_triggered f test_config two_mounts = Inr msgs \<and>
        filter is_disk_alert msgs =
          [disk_message f \<lparr>d_percent = Some 95, d_mountpoint = Some ''/''\<rparr> 95 90]"
    by (auto simp: mount_alert_DiskDict)
  with en t show "alerts_enabled test_config \<and> get_thresholds test_config ''disk'' = Some 90 \<and>
     (\<exists>msgs. alerts_triggered f test_config two_mounts = Inr msgs \<and>
        filter is_disk_alert msgs =
          [disk_message f \<lparr>d_percent = Some 95, d_mountpoint = Some ''/''\<rparr> 95 90])"
    by blast
qed

text \<open>
  Claim C5 as stated fails: with \<^verbatim>\<open>alerts.enabled\<close> false, the snapshot with one
  mount over the threshold and one under it yields no alert at all.
\<close>

theorem disabled_disk_counterexample:
  "\<forall>f. get_thresholds disabled_config ''disk'' = Some 90 \<and>
       filter (over_threshold 90) (get_or (disk two_mounts) []) =
         [DiskDict \<lparr>d_percent = Some 95, d_mountpoint = Some ''/''\<rparr>] \<and>
       alerts_triggered f disabled_config two_mounts = Inr []"
  by (simp add: alerts_triggered_def two_mounts_def no_metrics_def get_or_def)

text \<open>
  Claim C6, as amended. When an alert is not suppressed by the cooldown,
  \<^verbatim>\<open>AlertManager.send_alert\<close> calls the sender of every configured channel, in order,
  whatever the earlier senders raised (the channels with a sender are slack, email,
  webhook and log; any other name is only logged as unknown); the entry of the alert's
  key in \<^verbatim>\<open>alert_history\<close> is the time of this firing whatever the outcome of the
  deliveries; and the call returns true exactly when no sender raised. The collector's
  \<^verbatim>\<open>_send_alert\<close> returns nothing, so it reports neither success nor failure. It logs
  the alert once, sets the entry of the alert's key in \<^verbatim>\<open>alert_cooldown\<close> to the
  time of this firing, and calls a sender for the channels slack and email only, in
  order, whatever the earlier senders raised; for any other configured channel it
  attempts no delivery.
\<close>

theorem fan_out_reaches_every_channel:
  "(\<not> am_is_in_cooldown cfg (check_time clk) alert_type hostname st \<longrightarrow>
     (let r = am_send_alert f cfg net clk alert_type message hostname val threshold severity st;
          chans = get_or (am_channels cfg) [''log''];
          a = \<lparr>ad_timestamp = data_time clk, ad_hostname = hostname, ad_alert_type = alert_type,
               ad_message = message, ad_value = val, ad_threshold = threshold, ad_severity = severity\<rparr>
      in calls (am_effects (snd r)) = calls (am_effects st) @ concat (map am_sender chans) \<and>
         alert_history (snd r) (am_key hostname alert_type) = Some (update_time clk) \<and>
         fst r = list_all (\<lambda>raised. raised = None) (am_outcomes f cfg net a 0 chans))) \<and>
   (\<not> mc_in_cooldown h ccfg t msg cst \<longrightarrow>
     (let s = mc_send_alert h ccfg cnet t msg cst;
          chans = get_or (channels (alerts_section ccfg)) [''log'']
      in calls (effects s) = calls (effects cst) @ concat (map mc_sender chans) \<and>
         count_list (effects s) (alert_record msg) = count_list (effects cst) (alert_record msg) + 1 \<and>
         alert_cooldown s (h msg) = Some t))"
proof (intro conjI impI)
  assume a: "\<not> am_is_in_cooldown cfg (check_time clk) alert_type hostname st"
  show "let r = am_send_alert f cfg net clk alert_type message hostname val threshold severity st;
          chans = get_or (am_channels cfg) [''log''];
          a = \<lparr>ad_timestamp = data_time clk, ad_hostname = hostname, ad_alert_type = alert_type,
               ad_message = message, ad_value = val, ad_threshold = threshold, ad_severity = severity\<rparr>
      in calls (am_effects (snd r)) = calls (am_effects st) @ concat (map am_sender chans) \<and>
         alert_history (snd r) (am_key hostname alert_type) = Some (update_time clk) \<and>
         fst r = list_all (\<lambda>raised. raised = None) (am_outcomes f cfg net a 0 chans)"
    unfolding Let_def
    by (simp add: am_send_alert_fires [OF a] am_send_alert_success [OF a])
next
  assume a: "\<not> mc_in_cooldown h ccfg t msg cst"
  show "let s = mc_send_alert h ccfg cnet t msg cst;
          chans = get_or (channels (alerts_section ccfg)) [''log'']
      in calls (effects s) = calls (effects cst) @ concat (map mc_sender chans) \<and>
         count_list (effects s) (alert_record msg) = count_list (effects cst) (alert_record msg) + 1 \<and>
         alert_cooldown s (h msg) = Some t"
    unfolding Let_def
    by (simp add: mc_send_alert_fires [OF a])
qed

theorem fan_out_reaches_every_channel_witness:
  "\<forall>f. (let r = am_send_alert f slack_and_log net_down (clock_at 7) ''cpu_high'' ''CPU usage is critically high''
                 ''test-server'' None None ''warning'' am_fresh
        in fst r = False \<and>
           calls (am_effects (snd r)) = [''_send_slack_alert'', ''_log_alert''] \<and>
           alert_history (snd r) (am_key ''test-server'' ''cpu_high'') = Some 7) \<and>
       (let s = mc_send_alert (\<lambda>m. m) slack_collector net_down 7 cpu_alert_85 mc_fresh
        in calls (effects s) = [''_send_slack_alert'', ''_send_email_alert''] \<and>
           alert_cooldown s cpu_alert_85 = Some 7)"
proof
  fix f
  have am0: "\<not> am_is_in_cooldown slack_and_log (check_time (clock_at 7)) ''cpu_high'' ''test-server'' am_fresh"
    by (simp add: am_is_in_cooldown_def am_fresh_def)
  have mc0: "\<not> mc_in_cooldown (\<lambda>m. m) slack_collector 7 cpu_alert_85 mc_fresh"
    by (simp add: mc_in_cooldown_def mc_fresh_def)
  have ch: "get_or (am_channels slack_and_log) [''log''] = [''slack'', ''log'']"
    "get_or (channels (alerts_section slack_collector)) [''log''] = [''slack'', ''email'']"
    by (simp_all add: slack_and_log_def slack_collector_def alerts_section_def get_or_def)
  have out: "snd (am_dispatch f slack_and_log (net_down i) a ''slack'') = Some RequestException"
    for i a
    by (simp add: am_dispatch_def am_send_slack_alert_def slack_and_log_def net_down_def falsy_def)
  have e: "calls (am_effects am_fresh) = []" "calls (effects mc_fresh) = []"
    by (simp_all add: am_fresh_def mc_fresh_def)
  show "(let r = am_send_alert f slack_and_log net_down (clock_at 7) ''cpu_high'' ''CPU usage is critically high''
                 ''test-server'' None None ''warning'' am_fresh
        in fst r = False \<and>
           calls (am_effects (snd r)) = [''_send_slack_alert'', ''_log_alert''] \<and>
           alert_history (snd r) (am_key ''test-server'' ''cpu_high'') = Some 7) \<and>
       (let s = mc_send_alert (\<lambda>m. m) slack_collector net_down 7 cpu_alert_85 mc_fresh
        in calls (effects s) = [''_send_slack_alert'', ''_send_email_alert''] \<and>
           alert_cooldown s cpu_alert_85 = Some 7)"
    using fan_out_reaches_every_channel [where cfg = slack_and_log and clk = "clock_at 7"
        and alert_type = "''cpu_high''" and hostname = "''test-server''" and st = am_fresh and f = f
        and net = net_down and message = "''CPU usage is critically high''" and val = None
        and threshold = None and severity = "''warning''" and h = "\<lambda>m. m" and ccfg = slack_collector
        and t = 7 and msg = cpu_alert_85 and cst = mc_fresh and cnet = net_down]
      am0 mc0
    by (auto simp add: Let_def ch out e am_sender_def mc_sender_simps clock_at_def)
qed

text \<open>
  Claim C6 as stated fails in the collector: with webhook as the only configured channel
  an alert that is not in cooldown is logged and nothing else; no sender is called for
  the configured channel.
\<close>

theorem collector_skips_webhook_channel:
  "get_or (channels (alerts_section webhook_collector)) [''log''] = [''webhook''] \<and>
   \<not> mc_in_cooldown (\<lambda>m. m) webhook_collector 7 cpu_alert_85 mc_fresh \<and>
   effects (mc_send_alert (\<lambda>m. m) webhook_collector net_down 7 cpu_alert_85 mc_fresh) =
     [alert_record cpu_alert_85] \<and>
   calls (effects (mc_send_alert (\<lambda>m. m) webhook_collector net_down 7 cpu_alert_85 mc_fresh)) = []"
  by (simp add: webhook_collector_def alerts_section_def get_or_def mc_in_cooldown_def mc_fresh_def
      mc_send_alert_def Let_def emit_def alert_record_def calls_def)




text \<open>
  Claim C8, as amended. Every payload that fails field validation is answered with status
  422, a client error, without a call of \<^verbatim>\<open>store_metrics\<close>, and the database is left as
  it was. Validation fails, among others, for a CPU, memory, swap or mount percentage
  outside 0 to 100, for a memory or mount total that is not positive, for a negative
  swap total and for a timestamp that \<^verbatim>\<open>datetime.fromisoformat\<close> does not parse after
  \<^verbatim>\<open>Z\<close> is replaced. A swap total of zero passes validation (\<^verbatim>\<open>Field(..., ge=0)\<close>).
\<close>

theorem invalid_payload_never_reaches_store:
  "(\<not> validate_payload parses body \<longrightarrow>
      post_ingest parses env codec d body = \<lparr>status_code = 422, store_calls = 0, db_after = d\<rparr> \<and>
      400 \<le> status_code (post_ingest parses env codec d body) \<and>
      status_code (post_ingest parses env codec d body) < 500) \<and>
   (\<not> percent_ok (cm_percent (sy_cpu (mp_metrics body))) \<or>
    \<not> percent_ok (mm_percent (sy_memory (mp_metrics body))) \<or>
    \<not> percent_ok (sm_percent (sy_swap (mp_metrics body))) \<or>
    list_ex (\<lambda>dk. \<not> percent_ok (dm_percent dk)) (sy_disk (mp_metrics body)) \<or>
    mm_total (sy_memory (mp_metrics body)) \<le> 0 \<or>
    list_ex (\<lambda>dk. dm_total dk \<le> 0) (sy_disk (mp_metrics body)) \<or>
    sm_total (sy_swap (mp_metrics body)) < 0 \<or>
    \<not> parses (replace_Z (sy_timestamp (mp_metrics body)))
    \<longrightarrow> \<not> validate_payload parses body)"
proof (intro conjI impI)
  assume "\<not> validate_payload parses body"
  then show "post_ingest parses env codec d body = \<lparr>status_code = 422, store_calls = 0, db_after = d\<rparr>"
    and "400 \<le> status_code (post_ingest parses env codec d body)"
    and "status_code (post_ingest parses env codec d body) < 500"
    by (simp_all add: post_ingest_def)
next
  assume "\<not> percent_ok (cm_percent (sy_cpu (mp_metrics body))) \<or>
    \<not> percent_ok (mm_percent (sy_memory (mp_metrics body))) \<or>
    \<not> percent_ok (sm_percent (sy_swap (mp_metrics body))) \<or>
    list_ex (\<lambda>dk. \<not> percent_ok (dm_percent dk)) (sy_disk (mp_metrics body)) \<or>
    mm_total (sy_memory (mp_metrics body)) \<le> 0 \<or>
    list_ex (\<lambda>dk. dm_total dk \<le> 0) (sy_disk (mp_metrics body)) \<or>
    sm_total (sy_swap (mp_metrics body)) < 0 \<or>
    \<not> parses (replace_Z (sy_timestamp (mp_metrics body)))"
  then show "\<not> validate_payload parses body"
    by (auto simp: validate_payload_def validate_system_def validate_timestamp_def
        validate_cpu_def validate_memory_def validate_swap_def validate_disk_def
        list_ex_iff list_all_iff) force
qed

theorem invalid_payload_never_reaches_store_witness:
  "\<forall>env codec.
     \<not> percent_ok (cm_percent (sy_cpu (mp_metrics cpu_out_of_range))) \<and>
     post_ingest only_test_time env codec one_row_db cpu_out_of_range =
       \<lparr>status_code = 422, store_calls = 0, db_after = one_row_db\<rparr> \<and>
     \<not> only_test_time (replace_Z (sy_timestamp (mp_metrics bad_timestamp))) \<and>
     post_ingest only_test_time env codec one_row_db bad_timestamp =
       \<lparr>status_code = 422, store_calls = 0, db_after = one_row_db\<rparr>"
proof (intro allI)
  fix env :: store_env and codec :: json_codec
  have c: "\<not> percent_ok (cm_percent (sy_cpu (mp_metrics cpu_out_of_range)))"
    by (simp add: cpu_out_of_range_def percent_ok_def)
  have t: "\<not> only_test_time (replace_Z (sy_timestamp (mp_metrics bad_timestamp)))"
    by (simp add: bad_timestamp_def replace_Z_def only_test_time_def)
  from invalid_payload_never_reaches_store [of only_test_time cpu_out_of_range env codec one_row_db] c
  have 1: "post_ingest only_test_time env codec one_row_db cpu_out_of_range =
       \<lparr>status_code = 422, store_calls = 0, db_after = one_row_db\<rparr>"
    by blast
  from invalid_payload_never_reaches_store [of only_test_time bad_timestamp env codec one_row_db] t
  have 2: "post_ingest only_test_time env codec one_row_db bad_timestamp =
       \<lparr>status_code = 422, store_calls = 0, db_after = one_row_db\<rparr>"
    by blast
  from c t 1 2 show "\<not> percent_ok (cm_percent (sy_cpu (mp_metrics cpu_out_of_range))) \<and>
     post_ingest only_test_time env codec one_row_db cpu_out_of_range =
       \<lparr>status_code = 422, store_calls = 0, db_after = one_row_db\<rparr> \<and>
     \<not> only_test_time (replace_Z (sy_timestamp (mp_metrics bad_timestamp))) \<and>
     post_ingest only_test_time env codec one_row_db bad_timestamp =
       \<lparr>status_code = 422, store_calls = 0, db_after = one_row_db\<rparr>"
    by blast
qed

text \<open>
  Claim C8 as stated fails for a non-positive swap total: the test payload with a swap
  total of zero passes validation, is answered with status 200 after one call of
  \<^verbatim>\<open>store_metrics\<close>, and its row is persisted.
\<close>

theorem zero_swap_total_is_stored:
  "sm_total (sy_swap (mp_metrics swapless)) \<le> 0 \<and>
   validate_payload only_test_time swapless \<and>
   status_code (post_ingest only_test_time db_works plain_codec one_row_db swapless) = 200 \<and>
   store_calls (post_ingest only_test_time db_works plain_codec one_row_db swapless) = 1 \<and>
   length (rows (db_after (post_ingest only_test_time db_works plain_codec one_row_db swapless))) =
     length (rows one_row_db) + 1"
proof -
  have v: "validate_payload only_test_time swapless"
    by (simp add: validate_payload_def validate_system_def validate_timestamp_def replace_Z_def
      validate_cpu_def validate_memory_def validate_swap_def validate_disk_def percent_ok_def
      given_ge0_def only_test_time_def test_payload_def swapless_def)
  have s: "store_metrics db_works plain_codec one_row_db swapless =
      (\<lparr>rows = rows one_row_db @
          [(row_values swapless ''[...]'' None ''{...}'')\<lparr>r_id := 2, r_created_at := 1704110400\<rparr>],
        last_id = 2\<rparr>, True)"
    by (simp add: store_metrics_cases store_body_def execute_insert_def commit_def db_works_def
        plain_codec_def one_row_db_def swapless_def test_payload_def Let_def
        split: sum.splits option.splits)
  have z: "sm_total (sy_swap (mp_metrics swapless)) \<le> 0"
      by (simp add: swapless_def)
    show ?thesis
      using v z by (simp add: post_ingest_def ingest_metrics_cases s)
qed

text \<open>
  Claim C9. For every threshold set and snapshot: when a family's key is missing from the
  thresholds, or the family's field is missing from the snapshot, the check of that
  family appends nothing and raises nothing, and the evaluator as a whole returns a
  list with no alert of that family. The guards \<^verbatim>\<open>'cpu' in thresholds and 'cpu' in
  metrics\<close> keep every subscript of the function from raising \<^verbatim>\<open>KeyError\<close>.
\<close>

theorem missing_key_skips_check:
  "\<exists>msgs. alerts_triggered f cfg m = Inr msgs \<and>
     (get_thresholds cfg ''cpu'' = None \<or> cpu m = None \<longrightarrow>
        check_cpu f (get_thresholds cfg) m = Inr [] \<and> filter is_cpu_alert msgs = []) \<and>
     (get_thresholds cfg ''memory'' = None \<or> memory m = None \<longrightarrow>
        check_memory f (get_thresholds cfg) m = Inr [] \<and> filter is_memory_alert msgs = []) \<and>
     (get_thresholds cfg ''disk'' = None \<or> disk m = None \<longrightarrow>
        check_disk f (get_thresholds cfg) m = Inr [] \<and> filter is_disk_alert msgs = []) \<and>
     (get_thresholds cfg ''swap'' = None \<or> swap m = None \<longrightarrow>
        check_swap f (get_thresholds cfg) m = Inr [] \<and> filter is_swap_alert msgs = [])"
proof (cases "alerts_enabled cfg")
  case False
  have "check_cpu f (get_thresholds cfg) m = Inr []"
    if "get_thresholds cfg ''cpu'' = None \<or> cpu m = None"
    using that by (auto simp: check_cpu_def)
  moreover have "check_memory f (get_thresholds cfg) m = Inr []"
    if "get_thresholds cfg ''memory'' = None \<or> memory m = None"
    using that by (auto simp: check_memory_def)
  moreover have "check_disk f (get_thresholds cfg) m = Inr []"
    if "get_thresholds cfg ''disk'' = None \<or> disk m = None"
    using that by (auto simp: check_disk_def)
  moreover have "check_swap f (get_thresholds cfg) m = Inr []"
    if "get_thresholds cfg ''swap'' = None \<or> swap m = None"
    using that by (auto simp: check_swap_def)
  moreover have "alerts_triggered f cfg m = Inr []"
    using False by (simp add: alerts_triggered_def)
  ultimately show ?thesis by simp
next
  case True
  from alerts_triggered_by_family [OF True, of f m] obtain msgs where
    all: "alerts_triggered f cfg m = Inr msgs" and
    c: "check_cpu f (get_thresholds cfg) m = Inr (filter is_cpu_alert msgs)" and
    me: "check_memory f (get_thresholds cfg) m = Inr (filter is_memory_alert msgs)" and
    d: "check_disk f (get_thresholds cfg) m = Inr (filter is_disk_alert msgs)" and
    s: "check_swap f (get_thresholds cfg) m = Inr (filter is_swap_alert msgs)"
    by blast
  have "filter is_cpu_alert msgs = []"
    if "get_thresholds cfg ''cpu'' = None \<or> cpu m = None"
    using that c by (auto simp: check_cpu_def)
  moreover have "filter is_memory_alert msgs = []"
    if "get_thresholds cfg ''memory'' = None \<or> memory m = None"
    using that me by (auto simp: check_memory_def)
  moreover have "filter is_disk_alert msgs = []"
    if "get_thresholds cfg ''disk'' = None \<or> disk m = None"
    using that d by (auto simp: check_disk_def)
  moreover have "filter is_swap_alert msgs = []"
    if "get_thresholds cfg ''swap'' = None \<or> swap m = None"
    using that s by (auto simp: check_swap_def)
  ultimately show ?thesis using all c me d s by auto
qed

theorem missing_key_skips_check_witness:
  "\<forall>f. cpu no_metrics = None \<and> get_thresholds test_config ''cpu'' = Some 80 \<and>
       alerts_triggered f test_config no_metrics = Inr [] \<and>
       check_cpu f (get_thresholds test_config) no_metrics = Inr [] \<and>
       check_disk f (get_thresholds test_config) no_metrics = Inr []"
proof
  fix f
  have n: "cpu no_metrics = None" "disk no_metrics = None"
    by (simp_all add: no_metrics_def)
  from missing_key_skips_check [of f test_config no_metrics] obtain msgs where
    "alerts_triggered f test_config no_metrics = Inr msgs"
    "check_cpu f (get_thresholds test_config) no_metrics = Inr []"
    "check_disk f (get_thresholds test_config) no_metrics = Inr []"
    using n by auto
  moreover have "alerts_triggered f test_config no_metrics = Inr []"
    by (simp add: alerts_triggered_def check_cpu_eq check_memory_eq check_disk_eq check_swap_eq
        no_metrics_def)
  ultimately show "cpu no_metrics = None \<and> get_thresholds test_config ''cpu'' = Some 80 \<and>
       alerts_triggered f test_config no_metrics = Inr [] \<and>
       check_cpu f (get_thresholds test_config) no_metrics = Inr [] \<and>
       check_disk f (get_thresholds test_config) no_metrics = Inr []"
    using n by simp
qed

text \<open>
  Claim C10. For every payload that passes validation and for which \<^verbatim>\<open>store_metrics\<close>
  returns false, the \<^verbatim>\<open>try\<close> of \<^verbatim>\<open>ingest_metrics\<close> raises \<^verbatim>\<open>HTTPException(500)\<close>,
  its \<^verbatim>\<open>except Exception\<close> catches that and raises \<^verbatim>\<open>HTTPException(400)\<close>, and the
  response of \<^verbatim>\<open>POST /ingest\<close> has status 400: a failure of the storage is reported as
  an error of the client. The store was called once and the database is unchanged.
\<close>

theorem storage_failure_answers_400:
  "validate_payload parses body \<and> snd (store_metrics env codec d body) = False \<longrightarrow>
     snd (ingest_try_body env codec d body) = Inl (HTTPException 500) \<and>
     snd (ingest_metrics env codec d body) = Inl (HTTPException 400) \<and>
     post_ingest parses env codec d body = \<lparr>status_code = 400, store_calls = 1, db_after = d\<rparr>"
proof
  assume a: "validate_payload parses body \<and> snd (store_metrics env codec d body) = False"
  then have unchanged: "fst (store_metrics env codec d body) = d"
    using store_metrics_failure [of env codec d body] by simp
  obtain d' where s: "store_metrics env codec d body = (d', False)"
    using a by (cases "store_metrics env codec d body") auto
  with unchanged have d': "d' = d" by simp
  show "snd (ingest_try_body env codec d body) = Inl (HTTPException 500) \<and>
     snd (ingest_metrics env codec d body) = Inl (HTTPException 400) \<and>
     post_ingest parses env codec d body = \<lparr>status_code = 400, store_calls = 1, db_after = d\<rparr>"
    using a by (simp add: ingest_try_body_def ingest_metrics_def post_ingest_def s d')
qed

theorem storage_failure_answers_400_witness:
  "validate_payload only_test_time test_payload \<and>
   snd (store_metrics commit_fails plain_codec one_row_db test_payload) = False \<and>
   post_ingest only_test_time commit_fails plain_codec one_row_db test_payload =
     \<lparr>status_code = 400, store_calls = 1, db_after = one_row_db\<rparr>"
proof -
  have f: "snd (store_metrics commit_fails plain_codec one_row_db test_payload) = False"
    by (simp add: store_metrics_cases store_body_def execute_insert_def commit_def commit_fails_def
        db_works_def plain_codec_def test_payload_def)
  from storage_failure_answers_400 [of only_test_time test_payload commit_fails plain_codec one_row_db]
    test_payload_valid f
  show ?thesis by simp
qed

end
